theory Spec2Isabelle
  imports Main "HOL-Library.Word"
begin

unbundle bit_operations_syntax

section \<open>Go strings, byte slices and formatting\<close>

text \<open>
  A Go \<open>string\<close> is a sequence of bytes and is modelled by \<^typ>\<open>string\<close>; a \<open>[]byte\<close> is a
  list of 8-bit words, and a slice that may be \<open>nil\<close> is an option. An \<open>error\<close> return is
  \<open>Err\<close> with its message, a \<open>panic\<close> is \<open>Panic\<close>.
\<close>

type_synonym byte = "8 word"

datatype fault = Err string | Panic string

definition bytes_of :: "string \<Rightarrow> byte list" where
  "bytes_of s = map (\<lambda>c. of_nat (of_char c)) s"

definition string_of :: "byte list \<Rightarrow> string" where
  "string_of b = map (\<lambda>w. char_of (unat w)) b"

text \<open>\<open>strings.HasPrefix(s, prefix)\<close>: whether \<open>s\<close> begins with \<open>prefix\<close>.\<close>

definition HasPrefix :: "string \<Rightarrow> string \<Rightarrow> bool" where
  "HasPrefix s pre = (length pre \<le> length s \<and> take (length pre) s = pre)"

definition isDigit :: "char \<Rightarrow> bool" where
  "isDigit c = (48 \<le> (of_char c :: nat) \<and> (of_char c :: nat) \<le> 57)"

text \<open>The class \<open>\s\<close> of Go's regular expressions: tab, line feed, form feed, carriage return, space.\<close>

definition isSpace :: "char \<Rightarrow> bool" where
  "isSpace c = (c \<in> set [CHR 0x09, CHR 0x0A, CHR 0x0C, CHR 0x0D, CHR '' ''])"

text \<open>
  Decimal rendering: \<open>strconv.FormatInt(v, 10)\<close>, \<open>fmt.Sprintf("%d", n)\<close> and
  \<open>(*big.Int).String()\<close> all print an optional minus sign and the decimal digits.
\<close>

fun digits :: "nat \<Rightarrow> string" where
  "digits n = (if n < 10 then [char_of (48 + n)] else digits (n div 10) @ [char_of (48 + n mod 10)])"

declare digits.simps [simp del]

definition FormatInt :: "int \<Rightarrow> string" where
  "FormatInt i = (if i < 0 then CHR ''-'' # digits (nat (- i)) else digits (nat i))"

text \<open>message.go: \<open>cstr\<close>, \<open>cint32\<close>, \<open>cint16\<close> (big-endian, after the conversion to unsigned).\<close>

definition cstr :: "string \<Rightarrow> byte list" where
  "cstr s = bytes_of s @ [0]"

definition cint32 :: "32 word \<Rightarrow> byte list" where
  "cint32 i = [ucast (drop_bit 24 i), ucast (drop_bit 16 i), ucast (drop_bit 8 i), ucast i]"

definition cint16 :: "16 word \<Rightarrow> byte list" where
  "cint16 i = [ucast (drop_bit 8 i), ucast i]"

section \<open>Frames and the wire codec (message.go, wire.go)\<close>

text \<open>
  \<open>Message\<close>: the \<open>wire\<close> field of the source is a pointer; the model keeps whether it is set.
  \<open>buf\<close> is \<open>None\<close> for the source's \<open>nil\<close> slice.
\<close>

record Message =
  wire_set :: bool
  buf :: "byte list option"
  Length :: "32 word"
  Typ :: byte

definition NewMessage :: "byte \<Rightarrow> byte list option \<Rightarrow> Message" where
  "NewMessage typ payload =
     \<lparr>wire_set = False, buf = payload,
      Length = of_nat (length (case payload of None \<Rightarrow> [] | Some p \<Rightarrow> p) + 4), Typ = typ\<rparr>"

definition Query :: byte where "Query = 81"
definition Parse :: byte where "Parse = 80"
definition RowDescription :: byte where "RowDescription = 84"
definition DataRow :: byte where "DataRow = 68"
definition CommandComplete :: byte where "CommandComplete = 67"
definition EmptyQueryResponse :: byte where "EmptyQueryResponse = 73"
definition ErrorResponse :: byte where "ErrorResponse = 69"
definition BindComplete :: byte where "BindComplete = 50"
definition Authentication :: byte where "Authentication = 82"

text \<open>
  \<open>Wire\<close>: \<open>rd\<close> is the bytes the reader will still deliver before end of file, \<open>lastMsg\<close>
  the one message object the wire hands out (every \<open>ReadMessage\<close> returns that same object
  again, so the message a caller holds and \<open>lastMsg\<close> are one value in the model), \<open>Writer\<close>
  the frames written so far. A write of the \<open>n\<close>-th frame fails when \<open>wfail n\<close>.
  The 4096-byte read buffer a small body aliases is not modelled: bodies are values.
\<close>

record Wire =
  rd :: "byte list"
  lastMsg :: "Message option"
  Writer :: "Message list"
  wfail :: "nat \<Rightarrow> bool"

text \<open>\<open>Wire.Read\<close> is \<open>io.ReadFull\<close>: all \<open>n\<close> bytes or an error.\<close>

definition Wire_Read :: "Wire \<Rightarrow> nat \<Rightarrow> fault + (byte list \<times> Wire)" where
  "Wire_Read w n =
     (if n \<le> length (rd w) then Inr (take n (rd w), w\<lparr>rd := drop n (rd w)\<rparr>)
      else if rd w = [] then Inl (Err ''EOF'') else Inl (Err ''unexpected EOF''))"

text \<open>
  \<open>io.CopyN(io.Discard, wire, n)\<close>: nothing is read when \<open>n \<le> 0\<close>; otherwise exactly \<open>n\<close>
  bytes are read and dropped, or the copy fails when the reader ends first. \<open>io.Discard\<close>
  reads through a buffer of 8192 bytes, so \<open>Wire.Read\<close> is asked for 8192 bytes at a time
  (fewer for the last piece): when the reader ends where a piece begins, that read returns
  \<open>io.EOF\<close>, which the copy takes for the end of the input and \<open>CopyN\<close> reports as
  \<open>io.EOF\<close>; when it ends inside a piece, the read returns \<open>io.ErrUnexpectedEOF\<close>.
\<close>

definition CopyN_Discard :: "Wire \<Rightarrow> int \<Rightarrow> fault + Wire" where
  "CopyN_Discard w n =
     (if n \<le> 0 then Inr w
      else if nat n \<le> length (rd w) then Inr (w\<lparr>rd := drop (nat n) (rd w)\<rparr>)
      else if length (rd w) mod 8192 = 0 then Inl (Err ''EOF'') else Inl (Err ''unexpected EOF''))"

text \<open>\<open>Message.Skip\<close>; \<open>m.Length-4\<close> is 32-bit arithmetic, then widened to \<open>int64\<close>.\<close>

definition Skip :: "Message \<Rightarrow> Wire \<Rightarrow> fault + Wire" where
  "Skip m w =
     (if \<not> wire_set m \<or> buf m \<noteq> None then Inr w
      else CopyN_Discard w (sint (Length m - 4)))"

definition WireBufferSize :: int where
  "WireBufferSize = 4096"

text \<open>
  \<open>Message.Read\<close>: the body is read once and kept in \<open>buf\<close>. A negative length panics in the
  slice expression or in \<open>make\<close>.
\<close>

definition Message_Read :: "Message \<Rightarrow> Wire \<Rightarrow> fault + (byte list option \<times> Message \<times> Wire)" where
  "Message_Read m w =
     (if buf m \<noteq> None then Inr (buf m, m, w)
      else if \<not> wire_set m then Inr (buf m, m, w)
      else let n = sint (Length m - 4) in
        if sint (Length m) \<le> WireBufferSize + 4 \<and> (n < 0 \<or> WireBufferSize < n)
          then Inl (Panic ''slice bounds out of range'')
        else if n < 0 then Inl (Panic ''makeslice: len out of range'')
        else case Wire_Read w (nat n) of
               Inl e \<Rightarrow> Inl e
             | Inr (b, w') \<Rightarrow>
                 let m' = m\<lparr>buf := Some b\<rparr>
                 in Inr (Some b, m', w'\<lparr>lastMsg := Some m'\<rparr>))"

definition header_length :: "byte list \<Rightarrow> 32 word" where
  "header_length b =
     ucast (b ! 4) OR push_bit 8 (ucast (b ! 3)) OR push_bit 16 (ucast (b ! 2))
       OR push_bit 24 (ucast (b ! 1))"

definition ReadMessage :: "Wire \<Rightarrow> fault + (Message \<times> Wire)" where
  "ReadMessage w =
     (case (case lastMsg w of None \<Rightarrow> Inr w | Some m0 \<Rightarrow> Skip m0 w) of
        Inl e \<Rightarrow> Inl e
      | Inr w1 \<Rightarrow>
          (case Wire_Read w1 5 of
             Inl e \<Rightarrow> Inl e
           | Inr (b, w2) \<Rightarrow>
               let t = b ! 0; l = header_length b;
                   m = (case lastMsg w2 of
                          Some m0 \<Rightarrow> m0\<lparr>Length := l, Typ := t, buf := None\<rparr>
                        | None \<Rightarrow> \<lparr>wire_set = True, buf = None, Length = l, Typ = t\<rparr>)
               in Inr (m, w2\<lparr>lastMsg := Some m\<rparr>)))"

text \<open>\<open>Wire.WriteMessage\<close>: the frame (header and body) goes to the writer, or the write fails.\<close>

definition WriteMessage :: "Wire \<Rightarrow> Message \<Rightarrow> fault + Wire" where
  "WriteMessage w msg =
     (if wfail w (length (Writer w)) then Inl (Err ''write failed'')
      else Inr (w\<lparr>Writer := Writer w @ [msg]\<rparr>))"

section \<open>The rewrite of \<open>show transaction_read_only\<close> (pg\_conn.go, SimpleQuery and Prepare)\<close>

text \<open>
  Both call sites read \<open>if strings.HasPrefix("show transaction_read_only", query)\<close>: the literal
  is the first argument, the query text the second.
\<close>

definition rewriteShowTransactionReadOnly :: "string \<Rightarrow> string" where
  "rewriteShowTransactionReadOnly query =
     (if HasPrefix ''show transaction_read_only'' query then ''select 0'' else query)"

text \<open>
  Every message the wire hands out was created by \<open>ReadMessage\<close> with its \<open>wire\<close> pointer
  set; \<open>Wire_inv\<close> says so for the wire's live message.
\<close>

definition Wire_inv :: "Wire \<Rightarrow> bool" where
  "Wire_inv w = (case lastMsg w of None \<Rightarrow> True | Some m \<Rightarrow> wire_set m)"

text \<open>A wire about to deliver a Query frame with a three-byte body and a Terminate frame.\<close>

definition example_wire :: Wire where
  "example_wire = \<lparr>rd = [81, 0, 0, 0, 7, 1, 2, 3, 88, 0, 0, 0, 4], lastMsg = None, Writer = [],
                     wfail = (\<lambda>_. False)\<rparr>"

definition example_frame :: Message where
  "example_frame = \<lparr>wire_set = True, buf = None, Length = 7, Typ = 81\<rparr>"

definition example_wire1 :: Wire where
  "example_wire1 = example_wire\<lparr>rd := [1, 2, 3, 88, 0, 0, 0, 4], lastMsg := Some example_frame\<rparr>"

definition example_frame2 :: Message where
  "example_frame2 = example_frame\<lparr>buf := Some [1, 2, 3]\<rparr>"

definition example_wire2 :: Wire where
  "example_wire2 = example_wire\<lparr>rd := [88, 0, 0, 0, 4], lastMsg := Some example_frame2\<rparr>"

section \<open>Engine values and protocol types (pg\_types.go and the engine type tables)\<close>

text \<open>
  \<open>driver.Value\<close> is \<open>any\<close>; the datatype lists the dynamic types the type switches of the
  source distinguish and \<open>VOther\<close> (with its type name) for all others. Machine integers are
  words. A \<open>float64\<close> or \<open>float32\<close> is its IEEE bit pattern and a \<open>time.Time\<close> its instant in
  nanoseconds; the library functions that print them are parameters (\<open>lib\<close>).
  \<open>duckdb.Decimal\<close> has the unscaled value as a \<open>*big.Int\<close> and the scale as a \<open>uint8\<close>.
\<close>

record Decimal =
  Width :: "8 word"
  Scale :: "8 word"
  Value :: int

datatype Time = UnixNano int

datatype driver_Value =
    VNil
  | VBool bool
  | VInt8 "8 word"
  | VInt16 "16 word"
  | VInt32 "32 word"
  | VInt64 "64 word"
  | VFloat32 "32 word"
  | VFloat64 "64 word"
  | VString string
  | VDecimal Decimal
  | VTime Time
  | VList "driver_Value list"
  | VOther string

record lib =
  FormatFloat32 :: "64 word \<Rightarrow> string"
  FormatFloat64 :: "64 word \<Rightarrow> string"
  float64_of_float32 :: "32 word \<Rightarrow> 64 word"
  Decimal_Float64 :: "Decimal \<Rightarrow> 64 word"
  Time_Format :: "string \<Rightarrow> Time \<Rightarrow> string"

record pgType =
  Oid :: "32 word"
  Name :: string
  Typlen :: "16 word"

definition pgTypes :: "pgType list" where
  "pgTypes =
     [\<lparr>Oid = 16, Name = ''bool'', Typlen = 0\<rparr>,
      \<lparr>Oid = 17, Name = ''bytea'', Typlen = 0\<rparr>,
      \<lparr>Oid = 18, Name = ''char'', Typlen = 0\<rparr>,
      \<lparr>Oid = 20, Name = ''int8'', Typlen = 0\<rparr>,
      \<lparr>Oid = 21, Name = ''int4'', Typlen = 0\<rparr>,
      \<lparr>Oid = 700, Name = ''float4'', Typlen = 0\<rparr>,
      \<lparr>Oid = 701, Name = ''float8'', Typlen = 0\<rparr>,
      \<lparr>Oid = 25, Name = ''text'', Typlen = 0\<rparr>,
      \<lparr>Oid = 1700, Name = ''numeric'', Typlen = 0\<rparr>,
      \<lparr>Oid = 1114, Name = ''timestamp'', Typlen = 0\<rparr>]"

text \<open>
  \<open>init\<close> fills \<open>oidTypeMap\<close> and \<open>typeOidMap\<close> from \<open>pgTypes\<close> (no key occurs twice); a
  lookup of a missing key gives the zero value.
\<close>

definition oidTypeMap :: "32 word \<rightharpoonup> pgType" where
  "oidTypeMap = map_of (map (\<lambda>t. (Oid t, t)) pgTypes)"

definition typeOidMap :: "string \<rightharpoonup> 32 word" where
  "typeOidMap = map_of (map (\<lambda>t. (Name t, Oid t)) pgTypes)"

definition pgTypeFromOid :: "32 word \<Rightarrow> pgType" where
  "pgTypeFromOid oid =
     (case oidTypeMap oid of Some t \<Rightarrow> t | None \<Rightarrow> \<lparr>Oid = 0, Name = [], Typlen = 0\<rparr>)"

definition pgOidFromType :: "string \<Rightarrow> 32 word" where
  "pgOidFromType name = (case typeOidMap name of Some oid \<Rightarrow> oid | None \<Rightarrow> 0)"

record pgValue =
  typ' :: pgType
  val :: "byte list option"

definition Join :: "string list \<Rightarrow> string \<Rightarrow> string" where
  "Join elems sep = (case elems of [] \<Rightarrow> [] | e # es \<Rightarrow> e @ concat (map (\<lambda>x. sep @ x) es))"

text \<open>\<open>toPgValue\<close>; the list case stops at the first element that fails.\<close>

fun toPgValue :: "lib \<Rightarrow> driver_Value \<Rightarrow> fault + pgValue"
  and toPgValue_elems :: "lib \<Rightarrow> driver_Value list \<Rightarrow> fault + string list" where
  "toPgValue L (VBool v) =
     Inr \<lparr>typ' = pgTypeFromOid 16, val = Some (if v then cstr ''t'' else cstr ''f'')\<rparr>"
| "toPgValue L (VInt8 v) = Inr \<lparr>typ' = pgTypeFromOid 18, val = Some (bytes_of (FormatInt (sint v)))\<rparr>"
| "toPgValue L (VInt16 v) = Inr \<lparr>typ' = pgTypeFromOid 21, val = Some (bytes_of (FormatInt (sint v)))\<rparr>"
| "toPgValue L (VInt32 v) = Inr \<lparr>typ' = pgTypeFromOid 21, val = Some (bytes_of (FormatInt (sint v)))\<rparr>"
| "toPgValue L (VInt64 v) = Inr \<lparr>typ' = pgTypeFromOid 20, val = Some (bytes_of (FormatInt (sint v)))\<rparr>"
| "toPgValue L (VFloat32 v) =
     Inr \<lparr>typ' = pgTypeFromOid 701, val = Some (bytes_of (FormatFloat32 L (float64_of_float32 L v)))\<rparr>"
| "toPgValue L (VFloat64 v) =
     Inr \<lparr>typ' = pgTypeFromOid 701, val = Some (bytes_of (FormatFloat64 L v))\<rparr>"
| "toPgValue L (VString v) = Inr \<lparr>typ' = pgTypeFromOid 25, val = Some (bytes_of v)\<rparr>"
| "toPgValue L VNil = Inr \<lparr>typ' = pgTypeFromOid 25, val = None\<rparr>"
| "toPgValue L (VDecimal v) =
     Inr \<lparr>typ' = pgTypeFromOid 1700,
          val = Some (bytes_of (FormatFloat64 L (Decimal_Float64 L v)))\<rparr>"
| "toPgValue L (VTime v) =
     Inr \<lparr>typ' = pgTypeFromOid 25,
          val = Some (bytes_of (Time_Format L ''2006-01-02 15:04:05.999999'' v))\<rparr>"
| "toPgValue L (VList v) =
     (case toPgValue_elems L v of
        Inl e \<Rightarrow> Inl e
      | Inr res \<Rightarrow>
          Inr \<lparr>typ' = pgTypeFromOid 25, val = Some (bytes_of (''{'' @ Join res '','' @ ''}''))\<rparr>)"
| "toPgValue L (VOther T) = Inl (Err (''unsupported type '' @ T))"
| "toPgValue_elems L [] = Inr []"
| "toPgValue_elems L (e # es) =
     (case toPgValue L e of
        Inl err \<Rightarrow> Inl err
      | Inr pv \<Rightarrow>
          (case toPgValue_elems L es of
             Inl err \<Rightarrow> Inl err
           | Inr res \<Rightarrow> Inr (string_of (case val pv of None \<Rightarrow> [] | Some b \<Rightarrow> b) # res)))"

text \<open>The engine type names and their protocol type names; an unmapped name panics.\<close>

definition duck2pgTypeMap :: "string \<rightharpoonup> string" where
  "duck2pgTypeMap =
     map_of [(''BOOLEAN'', ''bool''), (''VARCHAR'', ''text''), (''INTEGER'', ''int4''),
             (''BIGINT'', ''int8''), (''DOUBLE'', ''float8''), (''TIMESTAMP'', ''timestamp''),
             (''DECIMAL'', ''numeric''), (''DATE'', ''date''), (''VARCHAR[]'', ''text'')]"

definition duck2pgType :: "string \<Rightarrow> fault + string" where
  "duck2pgType s =
     (case duck2pgTypeMap s of
        Some v \<Rightarrow> Inr v
      | None \<Rightarrow> Inl (Panic (''duck2pgType unsupported type '' @ s)))"

text \<open>\<open>duckDecimalToString\<close>: \<open>str\<close> is \<open>value.Value.String()\<close>, with its sign.\<close>

definition duckDecimalToString :: "Decimal \<Rightarrow> string" where
  "duckDecimalToString v =
     (let str = FormatInt (Value v); scale = unat (Scale v) in
      if scale = 0 then str
      else if length str \<le> scale
        then ''0.'' @ replicate (scale - length str) CHR ''0'' @ str
      else take (length str - scale) str @ ''.'' @ drop (length str - scale) str)"

section \<open>The engine, as the connection calls it (database/sql/driver)\<close>

text \<open>
  The engine is outside the sources. \<open>'h\<close> is the type of its statement handles
  (\<open>driver.Stmt\<close>). A row iterator (\<open>driver.Rows\<close>) is its column names and what its calls of
  \<open>Next\<close> will return, in order: a row or an error; after the last element \<open>Next\<close> returns
  \<open>io.EOF\<close>. An error is its message.
\<close>

datatype next_result = Row "driver_Value list" | NextErr string

record Rows =
  Columns :: "string list"
  pending :: "next_result list"

datatype NamedValue = NamedValue string int driver_Value

record 'h engine =
  conn_Prepare :: "string \<Rightarrow> string + 'h"
  stmt_NumInput :: "'h \<Rightarrow> int"
  stmt_QueryContext :: "'h \<Rightarrow> NamedValue list \<Rightarrow> string + Rows"
  db_QueryContext :: "string \<Rightarrow> string + (string + string \<times> string) list"

text \<open>
  \<open>db_QueryContext\<close> is \<open>c.db.QueryContext\<close> followed by the \<open>rows.Next\<close>/\<open>rows.Scan\<close> loop of
  \<open>inferStmtOutputNamesAndTypes\<close>: per row the scan error or the first two columns.
  The calls made on the engine are recorded in the connection (\<open>calls\<close>).
\<close>

datatype 'h call = CallPrepare string | CallQuery 'h "NamedValue list" | CallClose 'h
  | CallDbQuery string | CallCloseAll "'h set"

section \<open>The connection (pg\_conn.go)\<close>

record 'h stmtDesc =
  query :: string
  stmt :: "'h option"
  columns :: "(string \<times> string) list option"
  numInput :: int

text \<open>
  A portal points to its statement descriptor. The only field the source changes through
  that pointer is \<open>columns\<close> (in \<open>DescribePrepared\<close>), which \<open>Execute\<close> does not read: the
  model keeps the descriptor's value.
\<close>

record 'h portal =
  portal_stmt :: "'h stmtDesc"
  portal_values :: "driver_Value list"

record 'h PgConn =
  wire :: Wire
  stmts :: "string \<rightharpoonup> 'h stmtDesc"
  portal :: "string \<rightharpoonup> 'h portal"
  inError :: bool
  calls :: "'h call list"

definition conn_WriteMessage :: "'h PgConn \<Rightarrow> Message \<Rightarrow> fault + 'h PgConn" where
  "conn_WriteMessage c msg =
     (case WriteMessage (wire c) msg of Inl e \<Rightarrow> Inl e | Inr w \<Rightarrow> Inr (c\<lparr>wire := w\<rparr>))"


definition SendErrorResponse :: "'h PgConn \<Rightarrow> string \<Rightarrow> fault + 'h PgConn" where
  "SendErrorResponse c errStr =
     conn_WriteMessage (c\<lparr>inError := True\<rparr>)
       (NewMessage ErrorResponse
          (Some ([83] @ cstr ''ERROR'' @ [67] @ cstr ''SQL-0000'' @ [77] @ cstr errStr @ [0])))"

definition SendCommandComplete :: "'h PgConn \<Rightarrow> string \<Rightarrow> fault + 'h PgConn" where
  "SendCommandComplete c tag = conn_WriteMessage c (NewMessage CommandComplete (Some (cstr tag)))"

text \<open>\<open>SendRowData\<close>: the loop over the values, then the frame.\<close>

fun SendRowData_loop :: "lib \<Rightarrow> driver_Value list \<Rightarrow> fault + byte list" where
  "SendRowData_loop L [] = Inr []"
| "SendRowData_loop L (v # vs) =
     (if v = VNil then map_sum id (\<lambda>rest. cint32 (- 1) @ rest) (SendRowData_loop L vs)
      else case toPgValue L v of
             Inl err \<Rightarrow> Inl err
           | Inr pgVal \<Rightarrow>
               (case val pgVal of
                  None \<Rightarrow> map_sum id (\<lambda>rest. cint32 (- 1) @ rest) (SendRowData_loop L vs)
                | Some b \<Rightarrow>
                    map_sum id (\<lambda>rest. cint32 (of_nat (length b)) @ b @ rest)
                      (SendRowData_loop L vs)))"

definition SendRowData :: "lib \<Rightarrow> 'h PgConn \<Rightarrow> driver_Value list \<Rightarrow> fault + 'h PgConn" where
  "SendRowData L c values =
     (case SendRowData_loop L values of
        Inl err \<Rightarrow> Inl err
      | Inr data \<Rightarrow>
          conn_WriteMessage c
            (NewMessage DataRow (Some (cint16 (of_nat (length values)) @ data))))"

text \<open>
  \<open>SendRowDescription\<close> with first-row values: \<open>firstRowValues[i]\<close> panics out of range, and
  an error of \<open>toPgValue\<close> is turned into a panic.
\<close>

fun SendRowDescription_loop ::
  "lib \<Rightarrow> string list \<Rightarrow> driver_Value list \<Rightarrow> nat \<Rightarrow> fault + byte list" where
  "SendRowDescription_loop L [] firstRowValues i = Inr []"
| "SendRowDescription_loop L (name # names) firstRowValues i =
     (if length firstRowValues \<le> i then Inl (Panic ''index out of range'')
      else case toPgValue L (firstRowValues ! i) of
             Inl (Err err) \<Rightarrow> Inl (Panic err)
           | Inl (Panic p) \<Rightarrow> Inl (Panic p)
           | Inr pgVal \<Rightarrow>
               map_sum id
                 (\<lambda>rest. cstr name @ [0, 0, 0, 0] @ [0, 0] @ cint32 (Oid (typ' pgVal))
                         @ cint16 (Typlen (typ' pgVal)) @ [0, 0, 0, 0] @ [0, 0] @ rest)
                 (SendRowDescription_loop L names firstRowValues (Suc i)))"

definition SendRowDescription ::
  "lib \<Rightarrow> 'h PgConn \<Rightarrow> string list \<Rightarrow> driver_Value list option \<Rightarrow> fault + 'h PgConn" where
  "SendRowDescription L c columnNames firstRowValues =
     (case firstRowValues of
        None \<Rightarrow>
          conn_WriteMessage c
            (NewMessage RowDescription
               (Some (cint16 (of_nat (length columnNames))
                  @ concat (map (\<lambda>name. cstr name @ [0, 0, 0, 0] @ [0, 0] @ [0, 0, 0, 25]
                                   @ [0, 0] @ [0, 0, 0, 0] @ [0, 0]) columnNames))))
      | Some vs \<Rightarrow>
          (case SendRowDescription_loop L columnNames vs 0 of
             Inl f \<Rightarrow> Inl f
           | Inr columnData \<Rightarrow>
               conn_WriteMessage c
                 (NewMessage RowDescription
                    (Some (cint16 (of_nat (length columnNames)) @ columnData)))))"

fun SendRowDescriptionWithColumnNameAndTypes_loop ::
  "(string \<times> string) list \<Rightarrow> fault + byte list" where
  "SendRowDescriptionWithColumnNameAndTypes_loop [] = Inr []"
| "SendRowDescriptionWithColumnNameAndTypes_loop (column # rest) =
     (case duck2pgType (snd column) of
        Inl f \<Rightarrow> Inl f
      | Inr t \<Rightarrow>
          map_sum id
            (\<lambda>data. cstr (fst column) @ [0, 0, 0, 0, 0, 0] @ cint32 (pgOidFromType t)
                    @ [0, 0, 0, 0, 0, 0, 0, 0] @ data)
            (SendRowDescriptionWithColumnNameAndTypes_loop rest))"

definition SendRowDescriptionWithColumnNameAndTypes ::
  "'h PgConn \<Rightarrow> (string \<times> string) list \<Rightarrow> fault + 'h PgConn" where
  "SendRowDescriptionWithColumnNameAndTypes c cols =
     (case SendRowDescriptionWithColumnNameAndTypes_loop cols of
        Inl f \<Rightarrow> Inl f
      | Inr columnData \<Rightarrow>
          conn_WriteMessage c
            (NewMessage RowDescription (Some (cint16 (of_nat (length cols)) @ columnData))))"

text \<open>
  \<open>placeholderRegexp.ReplaceAllString(query, "null")\<close> for the pattern \<open>\$\d+\<close>: a dollar sign
  with the longest run of digits after it (at least one) becomes \<open>null\<close>.
\<close>

function replacePlaceholders :: "string \<Rightarrow> string" where
  "replacePlaceholders [] = []"
| "replacePlaceholders (c # cs) =
     (if c = CHR ''$'' \<and> takeWhile isDigit cs \<noteq> []
      then ''null'' @ replacePlaceholders (dropWhile isDigit cs)
      else c # replacePlaceholders cs)"
  by pat_completeness auto
termination
  by (relation "measure length") (auto simp: less_Suc_eq_le length_dropWhile_le)

text \<open>
  \<open>inferStmtOutputNamesAndTypes\<close>: the probe query, then the rows up to the first scan error.
\<close>

fun scan_rows :: "(string + string \<times> string) list \<Rightarrow> string + (string \<times> string) list" where
  "scan_rows [] = Inr []"
| "scan_rows (Inl err # rest) = Inl err"
| "scan_rows (Inr columnNameType # rest) = map_sum id (\<lambda>r. columnNameType # r) (scan_rows rest)"

definition probeQuery :: "string \<Rightarrow> string" where
  "probeQuery q = ''describe '' @ replacePlaceholders q"

definition inferStmtOutputNamesAndTypes ::
  "'h engine \<Rightarrow> string \<Rightarrow> string + (string \<times> string) list" where
  "inferStmtOutputNamesAndTypes E q =
     (case db_QueryContext E (probeQuery q) of
        Inl err \<Rightarrow> Inl err
      | Inr rows \<Rightarrow> scan_rows rows)"

text \<open>\<open>RunStmt\<close>: the loop of lines 257 to 270, then the function.\<close>

fun RunStmt_loop :: "lib \<Rightarrow> 'h PgConn \<Rightarrow> next_result list \<Rightarrow> int \<Rightarrow> fault + 'h PgConn" where
  "RunStmt_loop L c [] rowCount = SendCommandComplete c (''('' @ FormatInt rowCount @ '' row)'')"
| "RunStmt_loop L c (NextErr err # rest) rowCount = SendErrorResponse c err"
| "RunStmt_loop L c (Row rowValues # rest) rowCount =
     (case SendRowData L c rowValues of
        Inl (Err err) \<Rightarrow> SendErrorResponse c err
      | Inl (Panic p) \<Rightarrow> Inl (Panic p)
      | Inr c' \<Rightarrow> RunStmt_loop L c' rest (rowCount + 1))"

definition namedValues :: "driver_Value list \<Rightarrow> NamedValue list" where
  "namedValues vs = map (\<lambda>(i, v). NamedValue [] (int i + 1) v) (zip [0..<length vs] vs)"

definition RunStmt ::
  "lib \<Rightarrow> 'h engine \<Rightarrow> 'h PgConn \<Rightarrow> 'h option \<Rightarrow> driver_Value list \<Rightarrow> bool \<Rightarrow> string
     \<Rightarrow> fault + 'h PgConn" where
  "RunStmt L E c st vs sendRowDesc q =
     (case st of
        None \<Rightarrow> conn_WriteMessage c (NewMessage EmptyQueryResponse (Some []))
      | Some h \<Rightarrow>
          let nv = namedValues vs; c0 = c\<lparr>calls := calls c @ [CallQuery h nv]\<rparr> in
          (case stmt_QueryContext E h nv of
             Inl err \<Rightarrow> SendErrorResponse c0 err
           | Inr rows \<Rightarrow>
               if sendRowDesc then
                 (case pending rows of
                    [] \<Rightarrow>
                      let c1 = c0\<lparr>calls := calls c0 @ [CallDbQuery (probeQuery q)]\<rparr> in
                      (case inferStmtOutputNamesAndTypes E q of
                         Inl err \<Rightarrow> SendErrorResponse c1 err
                       | Inr types \<Rightarrow>
                           (case SendRowDescriptionWithColumnNameAndTypes c1 types of
                              Inl (Err err) \<Rightarrow> SendErrorResponse c1 err
                            | Inl (Panic p) \<Rightarrow> Inl (Panic p)
                            | Inr c2 \<Rightarrow> SendCommandComplete c2 ''(0 row)''))
                  | NextErr err # rest \<Rightarrow> SendErrorResponse c0 err
                  | Row rowValues # rest \<Rightarrow>
                      (case SendRowDescription L c0 (Columns rows) (Some rowValues) of
                         Inl (Err err) \<Rightarrow> SendErrorResponse c0 err
                       | Inl (Panic p) \<Rightarrow> Inl (Panic p)
                       | Inr c1 \<Rightarrow>
                           (case SendRowData L c1 rowValues of
                              Inl (Err err) \<Rightarrow> SendErrorResponse c1 err
                            | Inl (Panic p) \<Rightarrow> Inl (Panic p)
                            | Inr c2 \<Rightarrow> RunStmt_loop L c2 rest 1)))
               else RunStmt_loop L c0 (pending rows) 0))"

text \<open>\<open>strings.Contains\<close>.\<close>

definition Contains :: "string \<Rightarrow> string \<Rightarrow> bool" where
  "Contains s substr = list_ex (\<lambda>i. HasPrefix (drop i s) substr) [0..<Suc (length s)]"

text \<open>
  The last part of \<open>SimpleQuery\<close>, from line 305 on, which hands the text to the engine;
  \<open>SimpleQuery\<close> itself follows below. The deferred calls run on return: the statement is
  closed and \<open>inError\<close> is cleared.
\<close>

definition SimpleQuery_engine :: "lib \<Rightarrow> 'h engine \<Rightarrow> 'h PgConn \<Rightarrow> string \<Rightarrow> fault + 'h PgConn" where
  "SimpleQuery_engine L E c query0 =
     (let q = rewriteShowTransactionReadOnly query0;
          c0 = c\<lparr>calls := calls c @ [CallPrepare q]\<rparr> in
      case conn_Prepare E q of
        Inl err \<Rightarrow>
          map_sum id (\<lambda>c'. c'\<lparr>inError := False\<rparr>)
            (if Contains err ''No statement to prepare''
             then conn_WriteMessage c0 (NewMessage EmptyQueryResponse (Some []))
             else SendErrorResponse c0 err)
      | Inr h \<Rightarrow>
          map_sum id (\<lambda>c'. c'\<lparr>calls := calls c' @ [CallClose h], inError := False\<rparr>)
            (RunStmt L E c0 (Some h) [] True q))"

text \<open>
  The server (pg\_server.go): whether authentication is on, \<open>CreateUser\<close> (it encrypts the
  password and inserts into the users table; the result is its error, if any) and
  \<open>GetPassword\<close> (a query of the users table).
\<close>

record PgServer =
  enableAuth :: bool
  CreateUser :: "string \<Rightarrow> string \<Rightarrow> string option"
  GetPassword :: "string \<Rightarrow> string + string"

text \<open>
  The regular expressions of \<open>SimpleQuery\<close>, all under \<open>(?i)\<close>: a letter of the pattern
  matches itself in both cases and the other members of its case-folding orbit, which for
  \<open>s\<close> is the long s U+017F (the bytes C5 BF) and for \<open>k\<close> the Kelvin sign U+212A (the bytes
  E2 84 AA). \<open>fold_prefix kw s\<close> is the text after the keyword \<open>kw\<close> (written in lower case)
  at the start of \<open>s\<close>. The class \<open>\w\<close> is \<open>[0-9A-Za-z_]\<close>, folded in the same way;
  \<open>word_length s\<close> is the number of bytes of the longest run of \<open>\w\<close> at the start of \<open>s\<close>.
\<close>

definition upper :: "char \<Rightarrow> char" where
  "upper c = (if 97 \<le> (of_char c :: nat) \<and> (of_char c :: nat) \<le> 122
              then char_of ((of_char c :: nat) - 32) else c)"

fun fold_prefix :: "string \<Rightarrow> string \<Rightarrow> string option" where
  "fold_prefix [] s = Some s"
| "fold_prefix (k # ks) [] = None"
| "fold_prefix (k # ks) (c # cs) =
     (if c = k \<or> c = upper k then fold_prefix ks cs
      else if k = CHR ''s'' \<and> c = CHR 0xC5 \<and> take 1 cs = [CHR 0xBF] then fold_prefix ks (drop 1 cs)
      else if k = CHR ''k'' \<and> c = CHR 0xE2 \<and> take 2 cs = [CHR 0x84, CHR 0xAA]
        then fold_prefix ks (drop 2 cs)
      else None)"

definition isWord :: "char \<Rightarrow> bool" where
  "isWord c = (isDigit c \<or> (65 \<le> (of_char c :: nat) \<and> (of_char c :: nat) \<le> 90)
               \<or> (97 \<le> (of_char c :: nat) \<and> (of_char c :: nat) \<le> 122) \<or> c = CHR ''_'')"

function word_length :: "string \<Rightarrow> nat" where
  "word_length [] = 0"
| "word_length (c # cs) =
     (if isWord c then 1 + word_length cs
      else if c = CHR 0xC5 \<and> take 1 cs = [CHR 0xBF] then 2 + word_length (drop 1 cs)
      else if c = CHR 0xE2 \<and> take 2 cs = [CHR 0x84, CHR 0xAA] then 3 + word_length (drop 2 cs)
      else 0)"
  by pat_completeness auto
termination
  by (relation "measure length") auto

text \<open>The end of both statement patterns, \<open>\s*;?\s*$\<close>; the dollar sign is the end of the text.\<close>

definition statement_end :: "string \<Rightarrow> bool" where
  "statement_end t =
     (let t1 = dropWhile isSpace t;
          t2 = (case t1 of [] \<Rightarrow> [] | c # r \<Rightarrow> if c = CHR '';'' then r else t1)
      in dropWhile isSpace t2 = [])"

text \<open>
  \<open>createUserRegexp.FindStringSubmatch\<close> for
  \<open>(?i)^\s*create\s+user\s+(\w+)\s+with\s+password\s+'(.*)'\s*;?\s*$\<close>: the whole text, the
  user and the password, or nothing. After the closing quote come only white space and a
  semicolon, so it is the last quote of the text; the dot matches no line feed.
\<close>

definition createUserRegexp_FindStringSubmatch :: "string \<Rightarrow> string list" where
  "createUserRegexp_FindStringSubmatch s =
     (case fold_prefix ''create'' (dropWhile isSpace s) of
        None \<Rightarrow> []
      | Some r1 \<Rightarrow>
     (case (if takeWhile isSpace r1 = [] then None else fold_prefix ''user'' (dropWhile isSpace r1)) of
        None \<Rightarrow> []
      | Some r2 \<Rightarrow>
          let r3 = dropWhile isSpace r2;
              user = take (word_length r3) r3;
              r4 = drop (word_length r3) r3
          in
          if takeWhile isSpace r2 = [] \<or> user = [] \<or> takeWhile isSpace r4 = [] then []
          else
     (case fold_prefix ''with'' (dropWhile isSpace r4) of
        None \<Rightarrow> []
      | Some r5 \<Rightarrow>
     (case (if takeWhile isSpace r5 = [] then None
            else fold_prefix ''password'' (dropWhile isSpace r5)) of
        None \<Rightarrow> []
      | Some r6 \<Rightarrow>
          if takeWhile isSpace r6 = [] then []
          else
            (case dropWhile isSpace r6 of
               [] \<Rightarrow> []
             | q # r7 \<Rightarrow>
                 if q \<noteq> CHR 0x27 \<or> CHR 0x27 \<notin> set r7 then []
                 else
                   let password = rev (tl (dropWhile (\<lambda>x. x \<noteq> CHR 0x27) (rev r7)));
                       rest = rev (takeWhile (\<lambda>x. x \<noteq> CHR 0x27) (rev r7))
                   in if CHR 0x0A \<in> set password \<or> \<not> statement_end rest then []
                      else [s, user, password])))))"

text \<open>\<open>testDiscardAllRegexp.MatchString\<close> for \<open>(?i)^\s*discard\s+all\s*;?\s*$\<close>.\<close>

definition testDiscardAllRegexp_MatchString :: "string \<Rightarrow> bool" where
  "testDiscardAllRegexp_MatchString s =
     (case fold_prefix ''discard'' (dropWhile isSpace s) of
        None \<Rightarrow> False
      | Some r1 \<Rightarrow>
          takeWhile isSpace r1 \<noteq> []
          \<and> (case fold_prefix ''all'' (dropWhile isSpace r1) of
                None \<Rightarrow> False
              | Some r2 \<Rightarrow> statement_end r2))"

text \<open>
  \<open>detectCopyInSQl\<close> is \<open>copyInRegexp.MatchString\<close> for \<open>(?i)COPY\s+.*\s+FROM\s+STDIN\<close>, which
  may match anywhere in the text. \<open>copy_between seg\<close>: the text between \<open>COPY\<close> and \<open>FROM\<close> is
  \<open>\s+.*\s+\<close>, white space at both ends and no line feed outside it.
\<close>

definition copy_between :: "string \<Rightarrow> bool" where
  "copy_between seg =
     (2 \<le> length seg \<and> isSpace (hd seg) \<and> isSpace (last seg)
      \<and> CHR 0x0A \<notin> set (dropWhile isSpace (rev (dropWhile isSpace (rev seg)))))"

definition from_stdin :: "string \<Rightarrow> bool" where
  "from_stdin t =
     (case fold_prefix ''from'' t of
        None \<Rightarrow> False
      | Some u \<Rightarrow> takeWhile isSpace u \<noteq> [] \<and> fold_prefix ''stdin'' (dropWhile isSpace u) \<noteq> None)"

definition detectCopyInSQl :: "string \<Rightarrow> bool" where
  "detectCopyInSQl sql =
     list_ex (\<lambda>i. case fold_prefix ''copy'' (drop i sql) of
                    None \<Rightarrow> False
                  | Some r \<Rightarrow>
                      list_ex (\<lambda>k. copy_between (take k r) \<and> from_stdin (drop k r))
                        [0..<Suc (length r)])
       [0..<Suc (length sql)]"

text \<open>
  \<open>strings.TrimSpace(query) == ""\<close>: the text is white space only, as Unicode defines it and
  UTF-8 encodes it. \<open>space_rune s\<close> is the number of bytes of the white-space character at
  the start of \<open>s\<close>, and 0 when there is none: the ASCII characters 9 to 13 and 32, U+0085 and
  U+00A0, U+1680, U+2000 to U+200A, U+2028, U+2029, U+202F, U+205F and U+3000.
\<close>

definition byte_at :: "string \<Rightarrow> nat \<Rightarrow> nat" where
  "byte_at s i = of_char (s ! i)"

definition space_rune :: "string \<Rightarrow> nat" where
  "space_rune s =
     (if 1 \<le> length s \<and> ((9 \<le> byte_at s 0 \<and> byte_at s 0 \<le> 13) \<or> byte_at s 0 = 32) then 1
      else if 2 \<le> length s \<and> byte_at s 0 = 0xC2 \<and> (byte_at s 1 = 0x85 \<or> byte_at s 1 = 0xA0) then 2
      else if 3 \<le> length s
              \<and> ((byte_at s 0 = 0xE1 \<and> byte_at s 1 = 0x9A \<and> byte_at s 2 = 0x80)
                \<or> (byte_at s 0 = 0xE2 \<and> byte_at s 1 = 0x80
                     \<and> ((0x80 \<le> byte_at s 2 \<and> byte_at s 2 \<le> 0x8A) \<or> byte_at s 2 = 0xA8
                        \<or> byte_at s 2 = 0xA9 \<or> byte_at s 2 = 0xAF))
                \<or> (byte_at s 0 = 0xE2 \<and> byte_at s 1 = 0x81 \<and> byte_at s 2 = 0x9F)
                \<or> (byte_at s 0 = 0xE3 \<and> byte_at s 1 = 0x80 \<and> byte_at s 2 = 0x80))
        then 3
      else 0)"

lemma space_rune_le: "space_rune s \<le> length s"
  by (simp add: space_rune_def)

function TrimSpace_empty :: "string \<Rightarrow> bool" where
  "TrimSpace_empty s =
     (if s = [] then True
      else if space_rune s = 0 then False
      else TrimSpace_empty (drop (space_rune s) s))"
  by pat_completeness auto
termination
  by (relation "measure length") (use space_rune_le in auto)

declare TrimSpace_empty.simps [simp del]

text \<open>
  \<open>DiscardAll\<close>: every statement that has an engine handle is closed. The order of a
  \<open>range\<close> over a Go map is not specified, so the log holds the set of the handles closed.
\<close>

definition DiscardAll :: "'h PgConn \<Rightarrow> fault + 'h PgConn" where
  "DiscardAll c =
     SendCommandComplete
       (c\<lparr>portal := Map.empty, stmts := Map.empty,
          calls := calls c @ [CallCloseAll {h. \<exists>name sd. stmts c name = Some sd \<and> stmt sd = Some h}]\<rparr>)
       ''DISCARD ALL''"

text \<open>
  \<open>SimpleQuery\<close>. \<open>CopyIn\<close> (lines 547 to 616) streams the CopyData frames of the client
  into an appender of the engine; it is a parameter here. The deferred function clears
  \<open>inError\<close> on every return.
\<close>

definition SimpleQuery ::
  "lib \<Rightarrow> 'h engine \<Rightarrow> PgServer \<Rightarrow> ('h PgConn \<Rightarrow> string \<Rightarrow> fault + 'h PgConn) \<Rightarrow> 'h PgConn \<Rightarrow> string
     \<Rightarrow> fault + 'h PgConn" where
  "SimpleQuery L E server CopyIn c query0 =
     (let deferred = map_sum id (\<lambda>c'. c'\<lparr>inError := False\<rparr>);
          m = createUserRegexp_FindStringSubmatch query0
      in
      if enableAuth server \<and> length m = 3 then
        deferred (case CreateUser server (m ! 1) (m ! 2) of
                    Some err \<Rightarrow> SendErrorResponse c err
                  | None \<Rightarrow> SendCommandComplete c ''CREATE USER'')
      else if TrimSpace_empty query0 then
        deferred (conn_WriteMessage c (NewMessage EmptyQueryResponse (Some [])))
      else if testDiscardAllRegexp_MatchString query0 then deferred (DiscardAll c)
      else if detectCopyInSQl query0 then deferred (CopyIn c query0)
      else SimpleQuery_engine L E c query0)"


text \<open>\<open>Bind\<close>; \<open>NewMessage(BindComplete, nil)\<close> has a nil body.\<close>

definition Bind :: "'h PgConn \<Rightarrow> string \<Rightarrow> string \<Rightarrow> driver_Value list \<Rightarrow> fault + 'h PgConn" where
  "Bind c name portalName args =
     (case stmts c name of
        None \<Rightarrow> SendErrorResponse c (''prepared statement '' @ name @ '' not found'')
      | Some sd \<Rightarrow>
          conn_WriteMessage
            (c\<lparr>portal := (portal c)(portalName \<mapsto> \<lparr>portal_stmt = sd, portal_values = args\<rparr>)\<rparr>)
            (NewMessage BindComplete None))"















section \<open>Frames and conditions the properties are stated with\<close>

text \<open>The frame \<open>SendErrorResponse\<close> builds, and the one \<open>SendCommandComplete\<close> builds.\<close>

definition ErrorResponse_frame :: "string \<Rightarrow> Message" where
  "ErrorResponse_frame errStr =
     NewMessage ErrorResponse
       (Some ([83] @ cstr ''ERROR'' @ [67] @ cstr ''SQL-0000'' @ [77] @ cstr errStr @ [0]))"

definition CommandComplete_frame :: "string \<Rightarrow> Message" where
  "CommandComplete_frame tag = NewMessage CommandComplete (Some (cstr tag))"

text \<open>The DataRow frame of a row whose values all have a text rendering.\<close>

definition DataRow_frame :: "lib \<Rightarrow> driver_Value list \<Rightarrow> Message" where
  "DataRow_frame L vs =
     NewMessage DataRow
       (Some (cint16 (of_nat (length vs))
          @ (case SendRowData_loop L vs of Inl f \<Rightarrow> [] | Inr data \<Rightarrow> data)))"

text \<open>The connection after one more frame has been written.\<close>

definition emit :: "'h PgConn \<Rightarrow> Message \<Rightarrow> 'h PgConn" where
  "emit c m = c\<lparr>wire := (wire c)\<lparr>Writer := Writer (wire c) @ [m]\<rparr>\<rparr>"


text \<open>The transport accepts every frame.\<close>

definition writable :: "'h PgConn \<Rightarrow> bool" where
  "writable c = (\<forall>n. \<not> wfail (wire c) n)"



section \<open>Example engine and connection\<close>



definition ex_wire :: Wire where
  "ex_wire = \<lparr>rd = [], lastMsg = None, Writer = [], wfail = (\<lambda>n. False)\<rparr>"

definition ex_conn :: "string PgConn" where
  "ex_conn = \<lparr>wire = ex_wire, stmts = Map.empty, portal = Map.empty, inError = False, calls = []\<rparr>"





section \<open>SCRAM-SHA-256 authentication (pg\_auth.go)\<close>

text \<open>
  The library functions are parameters: base64 decoding (\<open>base64.StdEncoding.DecodeString\<close>,
  whose error the source drops) and encoding, HMAC-SHA-256 (\<open>computeHMAC\<close> is \<open>hmac.New\<close> with
  \<open>sha256.New\<close>), SHA-256, and the bytes \<open>rand.Read\<close> delivers.
\<close>

record crypto =
  b64_DecodeString :: "string \<Rightarrow> byte list"
  b64_EncodeToString :: "byte list \<Rightarrow> string"
  b64raw_EncodeToString :: "byte list \<Rightarrow> string"
  computeHMAC :: "byte list \<Rightarrow> byte list \<Rightarrow> byte list"
  sha256_Sum256 :: "byte list \<Rightarrow> byte list"
  rand_Read :: "nat \<Rightarrow> byte list"

text \<open>
  \<open>NewAuthenticationSASLMessage\<close>, \<open>ParseSASLInitialResponseMessage\<close> and
  \<open>ParseSASLResponseMessage\<close> are not in the sources. The first is a parameter. Like every
  parser of message.go, the two parsers are taken to read the body of the message with
  \<open>Message.Read\<close> and to decode it; the decoding is a parameter: an error, or the mechanism and
  the initial data (nil or not), respectively the data. When the read fails the reader is at
  end of file.
\<close>

record sasl_codec =
  NewAuthenticationSASLMessage :: "string list \<Rightarrow> Message"
  decode_SASLInitialResponse :: "Message \<Rightarrow> string + (string \<times> byte list option)"
  decode_SASLResponse :: "Message \<Rightarrow> string + byte list"

definition ParseSASLInitialResponseMessage ::
  "sasl_codec \<Rightarrow> Message \<Rightarrow> Wire \<Rightarrow> (fault + (string \<times> byte list option)) \<times> Wire" where
  "ParseSASLInitialResponseMessage S m w =
     (case Message_Read m w of
        Inl f \<Rightarrow> (Inl f, w\<lparr>rd := []\<rparr>)
      | Inr (b, m', w') \<Rightarrow>
          (case decode_SASLInitialResponse S m' of
             Inl err \<Rightarrow> (Inl (Err err), w')
           | Inr r \<Rightarrow> (Inr r, w')))"

definition ParseSASLResponseMessage ::
  "sasl_codec \<Rightarrow> Message \<Rightarrow> Wire \<Rightarrow> (fault + byte list) \<times> Wire" where
  "ParseSASLResponseMessage S m w =
     (case Message_Read m w of
        Inl f \<Rightarrow> (Inl f, w\<lparr>rd := []\<rparr>)
      | Inr (b, m', w') \<Rightarrow>
          (case decode_SASLResponse S m' of
             Inl err \<Rightarrow> (Inl (Err err), w')
           | Inr r \<Rightarrow> (Inr r, w')))"

text \<open>\<open>bytes.Split\<close> with a one-byte separator, and \<open>bytes.SplitN(kv, sep, 2)\<close>.\<close>

fun Split :: "'a list \<Rightarrow> 'a \<Rightarrow> 'a list list" where
  "Split [] sep = [[]]"
| "Split (x # xs) sep =
     (if x = sep then [] # Split xs sep
      else (case Split xs sep of [] \<Rightarrow> [[x]] | y # ys \<Rightarrow> (x # y) # ys))"

definition SplitN2 :: "'a list \<Rightarrow> 'a \<Rightarrow> 'a list list" where
  "SplitN2 s sep =
     (if sep \<in> set s then [takeWhile (\<lambda>x. x \<noteq> sep) s, tl (dropWhile (\<lambda>x. x \<noteq> sep) s)]
      else [s])"

definition parseSaslData :: "byte list \<Rightarrow> (string \<rightharpoonup> string)" where
  "parseSaslData data =
     foldl (\<lambda>m kv. case SplitN2 kv 61 of
                      [k, v] \<Rightarrow> m(string_of k \<mapsto> string_of v)
                    | _ \<Rightarrow> m)
       Map.empty (Split data 44)"

text \<open>Reading a key of a Go map: the zero value when the key is absent.\<close>

definition map_index :: "(string \<rightharpoonup> string) \<Rightarrow> string \<Rightarrow> string" where
  "map_index m k = (case m k of None \<Rightarrow> [] | Some v \<Rightarrow> v)"

definition readClientNonce :: "byte list \<Rightarrow> fault + string" where
  "readClientNonce data =
     (case parseSaslData data ''r'' of Some v \<Rightarrow> Inr v | None \<Rightarrow> Inl (Err ''not found''))"

text \<open>
  \<open>FindStringSubmatch\<close> of \<open>^SCRAM-SHA-256\$(\d+):(.*?)\$(.*?):(.*?)$\<close>: the whole text and the
  four groups, or nothing. The dot matches no line feed; the lazy groups end at the first
  dollar sign and the first colon.
\<close>

definition password_FindStringSubmatch :: "string \<Rightarrow> string list" where
  "password_FindStringSubmatch s =
     (if \<not> HasPrefix s ''SCRAM-SHA-256$'' \<or> CHR 0x0A \<in> set s then []
      else
        let r1 = drop 14 s; iterations = takeWhile isDigit r1; r2 = dropWhile isDigit r1 in
        if iterations = [] then []
        else
          (case r2 of
             [] \<Rightarrow> []
           | c2 # r3 \<Rightarrow>
               if c2 \<noteq> CHR '':'' then []
               else
                 let salt = takeWhile (\<lambda>x. x \<noteq> CHR ''$'') r3;
                     r4 = dropWhile (\<lambda>x. x \<noteq> CHR ''$'') r3 in
                 (case r4 of
                    [] \<Rightarrow> []
                  | c4 # r5 \<Rightarrow>
                      let storedKey = takeWhile (\<lambda>x. x \<noteq> CHR '':'') r5;
                          r6 = dropWhile (\<lambda>x. x \<noteq> CHR '':'') r5 in
                      (case r6 of
                         [] \<Rightarrow> []
                       | c6 # serverKey \<Rightarrow> [s, iterations, salt, storedKey, serverKey]))))"

text \<open>
  The loop \<open>clientKey[i] = clientProof[i] ^ clientSignature[i]\<close> for
  \<open>i < len(clientSignature)\<close>; \<open>clientKey\<close> has the length of \<open>clientSignature\<close>, and
  \<open>clientProof[i]\<close> panics when \<open>i\<close> is out of range.
\<close>

function xor_loop :: "byte list \<Rightarrow> byte list \<Rightarrow> byte list \<Rightarrow> nat \<Rightarrow> fault + byte list" where
  "xor_loop clientProof clientSignature clientKey i =
     (if i < length clientSignature then
        (if length clientProof \<le> i then Inl (Panic ''index out of range'')
         else xor_loop clientProof clientSignature
                (clientKey[i := (clientProof ! i) XOR (clientSignature ! i)]) (i + 1))
      else Inr clientKey)"
  by pat_completeness auto
termination
  by (relation "measure (\<lambda>(clientProof, clientSignature, clientKey, i). length clientSignature - i)")
    auto

declare xor_loop.simps [simp del]

definition auth_failed :: "string \<Rightarrow> string" where
  "auth_failed user = ''password authentication failed for user '' @ user"

definition WriteAuthOK :: "'h PgConn \<Rightarrow> fault + 'h PgConn" where
  "WriteAuthOK c = conn_WriteMessage c (NewMessage Authentication (Some [0, 0, 0, 0]))"

text \<open>
  \<open>ScramSha256Auth\<close>, in two parts. \<open>ScramSha256Auth_verify\<close> is the function from the
  credential lookup on (lines 180 to 224): \<open>c\<close> is the connection after the SASLInitialResponse
  was read, \<open>clientNonce\<close> the nonce it carried. A result \<open>Inr\<close> is the return of \<open>nil\<close>.
\<close>

definition ScramSha256Auth_verify ::
  "crypto \<Rightarrow> sasl_codec \<Rightarrow> PgServer \<Rightarrow> 'h PgConn \<Rightarrow> string \<Rightarrow> string \<Rightarrow> fault + 'h PgConn" where
  "ScramSha256Auth_verify C S server c user clientNonce =
     (let serverNonce = rand_Read C 18;
          serverNonceStr = b64raw_EncodeToString C serverNonce;
          clientAndServerNonce = clientNonce @ serverNonceStr
      in
      case GetPassword server user of
        Inl err \<Rightarrow> SendErrorResponse c (auth_failed user)
      | Inr pgpassword \<Rightarrow>
          let groups = password_FindStringSubmatch pgpassword in
          if length groups \<noteq> 5 then SendErrorResponse c (auth_failed user)
          else
            let salt = groups ! 2; iterations = groups ! 1;
                serverFirstResp = ''r='' @ clientAndServerNonce @ '',s='' @ salt @ '',i='' @ iterations
            in
            (case conn_WriteMessage c
                    (NewMessage Authentication (Some (cint32 11 @ bytes_of serverFirstResp))) of
               Inl e \<Rightarrow> Inl e
             | Inr c1 \<Rightarrow>
                 (case ReadMessage (wire c1) of
                    Inl e \<Rightarrow> Inl e
                  | Inr (msg, w2) \<Rightarrow>
                      (case ParseSASLResponseMessage S msg w2 of
                         (Inl (Panic p), w3) \<Rightarrow> Inl (Panic p)
                       | (Inl (Err e), w3) \<Rightarrow> Inr (c1\<lparr>wire := w3\<rparr>)
                       | (Inr Data, w3) \<Rightarrow>
                           let c3 = c1\<lparr>wire := w3\<rparr>;
                               clientFinalData = parseSaslData Data;
                               storedKey = b64_DecodeString C (groups ! 3);
                               clientProof = b64_DecodeString C (map_index clientFinalData ''p'');
                               serverKey = b64_DecodeString C (groups ! 4);
                               authMessage = ''n=,r='' @ clientNonce @ '','' @ serverFirstResp @ '',''
                                               @ ''c=biws,r='' @ clientAndServerNonce;
                               clientSignature = computeHMAC C storedKey (bytes_of authMessage)
                           in
                           (case xor_loop clientProof clientSignature
                                   (replicate (length clientSignature) 0) 0 of
                              Inl f \<Rightarrow> Inl f
                            | Inr clientKey \<Rightarrow>
                                let storedKeyComputed = sha256_Sum256 C clientKey in
                                if storedKey \<noteq> storedKeyComputed
                                then SendErrorResponse c3 (auth_failed user)
                                else
                                  let serverSignature =
                                        b64_EncodeToString C
                                          (computeHMAC C serverKey (bytes_of authMessage))
                                  in
                                  (case conn_WriteMessage c3
                                          (NewMessage Authentication
                                             (Some (cint32 11 @ bytes_of (''v='' @ serverSignature)))) of
                                     Inl e \<Rightarrow> Inl e
                                   | Inr c4 \<Rightarrow> WriteAuthOK c4))))))"

definition ScramSha256Auth ::
  "crypto \<Rightarrow> sasl_codec \<Rightarrow> PgServer \<Rightarrow> 'h PgConn \<Rightarrow> string \<Rightarrow> fault + 'h PgConn" where
  "ScramSha256Auth C S server c user =
     (case conn_WriteMessage c (NewAuthenticationSASLMessage S [''SCRAM-SHA-256'']) of
        Inl e \<Rightarrow> Inl e
      | Inr c1 \<Rightarrow>
          (case ReadMessage (wire c1) of
             Inl e \<Rightarrow> Inl e
           | Inr (msg, w2) \<Rightarrow>
               (case ParseSASLInitialResponseMessage S msg w2 of
                  (Inl (Panic p), w3) \<Rightarrow> Inl (Panic p)
                | (Inl (Err e), w3) \<Rightarrow> Inr (c1\<lparr>wire := w3\<rparr>)
                | (Inr (Mechanism, Initial), w3) \<Rightarrow>
                    if Mechanism \<noteq> ''SCRAM-SHA-256'' then Inl (Err ''invalid mechanism'')
                    else
                      (case Initial of
                         None \<Rightarrow> Inl (Err ''invalid initial data'')
                       | Some saslInitialData \<Rightarrow>
                           (case readClientNonce saslInitialData of
                              Inl e \<Rightarrow> Inl e
                            | Inr clientNonce \<Rightarrow>
                                ScramSha256Auth_verify C S server (c1\<lparr>wire := w3\<rparr>) user
                                  clientNonce)))))"

text \<open>\<open>Auth\<close> (the version with the SCRAM exchange written out) and \<open>NoAuth\<close>.\<close>

definition Auth :: "crypto \<Rightarrow> sasl_codec \<Rightarrow> PgServer \<Rightarrow> 'h PgConn \<Rightarrow> string \<Rightarrow> fault + 'h PgConn" where
  "Auth C S server c user =
     (if enableAuth server = False then WriteAuthOK c else ScramSha256Auth C S server c user)"


text \<open>
  Stand-ins for the library functions, of the right shapes: HMAC-SHA-256 and SHA-256 return 32
  bytes, and the stand-in for base64 takes a character for a byte (so the empty string decodes
  to no bytes). A codec for the SASL messages: the body of a SASLInitialResponse is taken as
  the initial data of mechanism SCRAM-SHA-256, the body of a SASLResponse as its data.
\<close>

definition ex_crypto :: crypto where
  "ex_crypto = \<lparr>b64_DecodeString = bytes_of, b64_EncodeToString = string_of,
               b64raw_EncodeToString = string_of,
               computeHMAC = (\<lambda>key msg. replicate 32 0),
               sha256_Sum256 = (\<lambda>b. replicate 32 0),
               rand_Read = (\<lambda>n. replicate n 65)\<rparr>"

definition ex_sasl :: sasl_codec where
  "ex_sasl = \<lparr>NewAuthenticationSASLMessage =
                (\<lambda>mechs. NewMessage Authentication (Some (cint32 10 @ concat (map cstr mechs) @ [0]))),
             decode_SASLInitialResponse =
                (\<lambda>m. case buf m of None \<Rightarrow> Inl ''no body'' | Some b \<Rightarrow> Inr (''SCRAM-SHA-256'', Some b)),
             decode_SASLResponse =
                (\<lambda>m. case buf m of None \<Rightarrow> Inl ''no body'' | Some b \<Rightarrow> Inr b)\<rparr>"

text \<open>Servers that know the user \<open>alice\<close>, no user, and a user with an MD5 credential.\<close>

definition ex_server :: PgServer where
  "ex_server = \<lparr>enableAuth = True, CreateUser = (\<lambda>u p. None),
       GetPassword = (\<lambda>u. if u = ''alice'' then Inr ''SCRAM-SHA-256$4096:c2FsdA==$c3RvcmVk:c2VydmVy''
                          else Inl ''sql: no rows in result set'')\<rparr>"



text \<open>
  Connections about to receive a SASLResponse (tag \<open>p\<close>): one without a \<open>p\<close> field, one
  with a 32-character \<open>p\<close> field that does not verify. \<open>ex_continue\<close> is the
  AuthenticationSASLContinue frame the server sends to \<open>alice\<close> for the client nonce
  \<open>abc\<close>.
\<close>

definition ex_frame_bytes :: "byte \<Rightarrow> byte list \<Rightarrow> byte list" where
  "ex_frame_bytes t body = t # cint32 (of_nat (length body + 4)) @ body"

definition ex_conn_reading :: "byte list \<Rightarrow> string PgConn" where
  "ex_conn_reading input = ex_conn\<lparr>wire := ex_wire\<lparr>rd := input\<rparr>\<rparr>"


definition ex_body_short :: "byte list" where
  "ex_body_short = bytes_of ''c=biws,r=abcAAAAAAAAAAAAAAAAAA''"


definition ex_msg :: "32 word \<Rightarrow> Message" where
  "ex_msg l = \<lparr>wire_set = True, buf = None, Length = l, Typ = 112\<rparr>"

definition ex_conn_short :: "string PgConn" where
  "ex_conn_short = ex_conn_reading (ex_frame_bytes 112 ex_body_short)"


section \<open>The LIMIT rewrite of the HTTP SELECT path (ch\_server.go)\<close>

text \<open>
  \<open>limitRewriteRegexp\<close> is \<open>(?i)LIMIT\s+(\d+)\s*,\s*(\d+)\<close>. \<open>\s\<close> is tab, line feed, form
  feed, carriage return and space; the letters of \<open>LIMIT\<close> fold to their lower case only.
  \<open>matchLimit s\<close> is the match that begins at the start of \<open>s\<close>: the two groups and the
  text after the match. The classes that follow one another are disjoint, so the greedy
  match is the only one.
\<close>

definition folds_to_LIMIT :: "string \<Rightarrow> bool" where
  "folds_to_LIMIT kw =
     (length kw = 5
      \<and> (kw ! 0 = CHR ''L'' \<or> kw ! 0 = CHR ''l'') \<and> (kw ! 1 = CHR ''I'' \<or> kw ! 1 = CHR ''i'')
      \<and> (kw ! 2 = CHR ''M'' \<or> kw ! 2 = CHR ''m'') \<and> (kw ! 3 = CHR ''I'' \<or> kw ! 3 = CHR ''i'')
      \<and> (kw ! 4 = CHR ''T'' \<or> kw ! 4 = CHR ''t''))"

definition matchLimit :: "string \<Rightarrow> (string \<times> string \<times> string) option" where
  "matchLimit s =
     (if \<not> folds_to_LIMIT (take 5 s) then None
      else
        let s1 = drop 5 s; ws1 = takeWhile isSpace s1; s2 = dropWhile isSpace s1 in
        if ws1 = [] then None
        else
          let a = takeWhile isDigit s2; s3 = dropWhile isDigit s2 in
          if a = [] then None
          else
            (case dropWhile isSpace s3 of
               [] \<Rightarrow> None
             | c # s5 \<Rightarrow>
                 if c \<noteq> CHR '','' then None
                 else
                   let s6 = dropWhile isSpace s5; b = takeWhile isDigit s6 in
                   if b = [] then None else Some (a, b, dropWhile isDigit s6)))"

lemma matchLimit_shorter: "matchLimit s = Some (a, b, rest) \<Longrightarrow> length rest < length s"
proof -
  assume m: "matchLimit s = Some (a, b, rest)"
  have le: "length (dropWhile P xs) \<le> length xs" for P and xs :: string
    by (rule length_dropWhile_le)
  from m obtain s5 where
    s5: "dropWhile isSpace (dropWhile isDigit (dropWhile isSpace (drop 5 s))) = CHR '','' # s5"
    and r: "rest = dropWhile isDigit (dropWhile isSpace s5)"
    by (auto simp: matchLimit_def Let_def split: if_splits list.splits)
  have "length rest \<le> length s5" unfolding r
    by (meson le order_trans)
  also have "length s5 < length (dropWhile isSpace (dropWhile isDigit (dropWhile isSpace (drop 5 s))))"
    by (simp add: s5)
  also have "\<dots> \<le> length (drop 5 s)" by (meson le order_trans)
  also have "\<dots> \<le> length s" by simp
  finally show ?thesis .
qed

text \<open>
  \<open>limitRewriteRegexp.ReplaceAllString(query, "LIMIT $2 OFFSET $1")\<close>: the matches are
  taken from left to right without overlap, the text between them is copied.
\<close>

function limitRewrite :: "string \<Rightarrow> string" where
  "limitRewrite [] = []"
| "limitRewrite (c # cs) =
     (case matchLimit (c # cs) of
        Some (a, b, rest) \<Rightarrow> ''LIMIT '' @ b @ '' OFFSET '' @ a @ limitRewrite rest
      | None \<Rightarrow> c # limitRewrite cs)"
  by pat_completeness auto
termination
  by (relation "measure length") (auto dest: matchLimit_shorter)


text \<open>
  The pattern in words: the keyword in any letter case, white space, the digits \<open>a\<close>,
  optional white space, a comma, optional white space, the digits \<open>b\<close>.
\<close>

definition limit_shape :: "string \<Rightarrow> string \<Rightarrow> string \<Rightarrow> string \<Rightarrow> string \<Rightarrow> string \<Rightarrow> bool" where
  "limit_shape kw ws1 a ws2 ws3 b =
     (folds_to_LIMIT kw \<and> ws1 \<noteq> [] \<and> list_all isSpace ws1 \<and> a \<noteq> [] \<and> list_all isDigit a
      \<and> list_all isSpace ws2 \<and> list_all isSpace ws3 \<and> b \<noteq> [] \<and> list_all isDigit b)"

definition limit_text :: "string \<Rightarrow> string \<Rightarrow> string \<Rightarrow> string \<Rightarrow> string \<Rightarrow> string \<Rightarrow> string" where
  "limit_text kw ws1 a ws2 ws3 b = kw @ ws1 @ a @ ws2 @ '','' @ ws3 @ b"

text \<open>The text after an occurrence does not go on with a digit (the digits of \<open>b\<close> end there).\<close>

definition no_digit_ahead :: "string \<Rightarrow> bool" where
  "no_digit_ahead post = (case post of [] \<Rightarrow> True | c # cs \<Rightarrow> \<not> isDigit c)"

definition starts_with_L :: "string \<Rightarrow> bool" where
  "starts_with_L s = (case s of [] \<Rightarrow> False | c # cs \<Rightarrow> c = CHR ''L'' \<or> c = CHR ''l'')"

section \<open>Properties\<close>

lemma HasPrefix_iff_prefix: "HasPrefix s pre \<longleftrightarrow> (\<exists>t. s = pre @ t)"
  unfolding HasPrefix_def
  by (metis append_eq_conv_conj append_take_drop_id length_append le_add1)

lemma rewriteShow_replaces_iff:
  "rewriteShowTransactionReadOnly q = ''select 0'' \<longleftrightarrow>
     (\<exists>t. ''show transaction_read_only'' = q @ t) \<or> q = ''select 0''"
  unfolding rewriteShowTransactionReadOnly_def HasPrefix_iff_prefix by auto

text \<open>
  C4. The claim: a query text is replaced by \<open>select 0\<close> exactly when it begins with the
  literal \<open>show transaction_read_only\<close>. The code tests the reverse (whether the literal begins
  with the query text): a query that begins with the literal and goes on (here with a semicolon)
  is passed on unchanged, and a query that is a proper prefix of the literal (here \<open>sh\<close>) is
  replaced.
\<close>

theorem C4_show_rewrite_tests_reverse_prefix:
  "HasPrefix ''show transaction_read_only;'' ''show transaction_read_only''
   \<and> rewriteShowTransactionReadOnly ''show transaction_read_only;'' = ''show transaction_read_only;''
   \<and> \<not> HasPrefix ''sh'' ''show transaction_read_only''
   \<and> rewriteShowTransactionReadOnly ''sh'' = ''select 0''"
  by (simp add: rewriteShowTransactionReadOnly_def HasPrefix_def)

subsection \<open>The wire codec skips the unread body of the previous frame\<close>

lemma Wire_inv_fresh: "lastMsg w = None \<Longrightarrow> Wire_inv w"
  by (simp add: Wire_inv_def)

lemma Wire_inv_ReadMessage:
  "Wire_inv w \<Longrightarrow> ReadMessage w = Inr (m, w') \<Longrightarrow>
     Wire_inv w' \<and> lastMsg w' = Some m \<and> buf m = None"
  by (auto simp: Wire_inv_def ReadMessage_def Skip_def CopyN_Discard_def Wire_Read_def Let_def
      split: option.splits sum.splits if_splits)

lemma Wire_inv_Message_Read:
  "Wire_inv w \<Longrightarrow> lastMsg w = Some m \<Longrightarrow> Message_Read m w = Inr (b, m', w') \<Longrightarrow>
     Wire_inv w' \<and> lastMsg w' = Some m' \<and> buf m' \<noteq> None"
  by (auto simp: Wire_inv_def Message_Read_def Wire_Read_def Let_def
      split: option.splits sum.splits if_splits) (metis)

lemma sint_Length_minus_4:
  fixes l :: "32 word"
  assumes "4 \<le> sint l"
  shows "sint (l - 4) = sint l - 4"
proof -
  have "sint (l - 4) = signed_take_bit 31 (sint l - 4)"
    by (simp add: sint_word_diff)
  also have "\<dots> = sint l - 4"
    using assms sint_lt [of l] by (intro signed_take_bit_int_eq_self) simp_all
  finally show ?thesis .
qed

lemma Skip_short_frame:
  "wire_set m \<Longrightarrow> buf m = None \<Longrightarrow> sint (Length m - 4) \<le> 0 \<Longrightarrow> Skip m w = Inr w"
  by (simp add: Skip_def CopyN_Discard_def)

text \<open>
  C2. Let \<open>m\<close> be the wire's live message (the previous frame), of declared length \<open>L\<close>, a
  well-formed length (\<open>L \<ge> 4\<close>: the length counts its own four bytes). If its body was never
  read (\<open>buf m = None\<close>) and the reader still holds the \<open>L - 4\<close> body bytes and the next
  header, then \<open>Skip\<close> drops exactly \<open>L - 4\<close> bytes and \<open>ReadMessage\<close> takes the next
  frame's tag and length from the five bytes after them. If the body was buffered by \<open>Read\<close>
  (\<open>buf m \<noteq> None\<close>, see \<open>Wire_inv_Message_Read\<close>), \<open>Skip\<close> drops nothing and the header is
  the next five bytes.
\<close>

theorem C2_ReadMessage_skips_unread_body:
  assumes inv: "Wire_inv w" and last: "lastMsg w = Some m"
  shows "(buf m = None \<longrightarrow> 4 \<le> sint (Length m) \<longrightarrow>
            nat (sint (Length m) - 4) + 5 \<le> length (rd w) \<longrightarrow>
           Skip m w = Inr (w\<lparr>rd := drop (nat (sint (Length m) - 4)) (rd w)\<rparr>) \<and>
           (\<exists>m'. ReadMessage w =
                   Inr (m', w\<lparr>rd := drop (nat (sint (Length m) - 4) + 5) (rd w),
                                lastMsg := Some m'\<rparr>)
              \<and> Typ m' = rd w ! nat (sint (Length m) - 4)
              \<and> Length m' = header_length (take 5 (drop (nat (sint (Length m) - 4)) (rd w)))))
       \<and> (buf m \<noteq> None \<longrightarrow> 5 \<le> length (rd w) \<longrightarrow>
           Skip m w = Inr w \<and>
           (\<exists>m'. ReadMessage w = Inr (m', w\<lparr>rd := drop 5 (rd w), lastMsg := Some m'\<rparr>)
              \<and> Typ m' = rd w ! 0 \<and> Length m' = header_length (take 5 (rd w))))"
proof -
  have ws: "wire_set m" using inv last by (simp add: Wire_inv_def)
  have A: "buf m = None \<longrightarrow> 4 \<le> sint (Length m) \<longrightarrow>
            nat (sint (Length m) - 4) + 5 \<le> length (rd w) \<longrightarrow>
           Skip m w = Inr (w\<lparr>rd := drop (nat (sint (Length m) - 4)) (rd w)\<rparr>) \<and>
           (\<exists>m'. ReadMessage w =
                   Inr (m', w\<lparr>rd := drop (nat (sint (Length m) - 4) + 5) (rd w),
                                lastMsg := Some m'\<rparr>)
              \<and> Typ m' = rd w ! nat (sint (Length m) - 4)
              \<and> Length m' = header_length (take 5 (drop (nat (sint (Length m) - 4)) (rd w))))"
  proof (intro impI)
    assume b: "buf m = None" and l: "4 \<le> sint (Length m)"
      and n: "nat (sint (Length m) - 4) + 5 \<le> length (rd w)"
    have s4: "sint (Length m - 4) = sint (Length m) - 4"
      using l by (rule sint_Length_minus_4)
    show "Skip m w = Inr (w\<lparr>rd := drop (nat (sint (Length m) - 4)) (rd w)\<rparr>) \<and>
           (\<exists>m'. ReadMessage w =
                   Inr (m', w\<lparr>rd := drop (nat (sint (Length m) - 4) + 5) (rd w),
                                lastMsg := Some m'\<rparr>)
              \<and> Typ m' = rd w ! nat (sint (Length m) - 4)
              \<and> Length m' = header_length (take 5 (drop (nat (sint (Length m) - 4)) (rd w))))"
      using ws b l n last s4
      by (auto simp: ReadMessage_def Skip_def CopyN_Discard_def Wire_Read_def Let_def add.commute)
  qed
  have B: "buf m \<noteq> None \<longrightarrow> 5 \<le> length (rd w) \<longrightarrow>
           Skip m w = Inr w \<and>
           (\<exists>m'. ReadMessage w = Inr (m', w\<lparr>rd := drop 5 (rd w), lastMsg := Some m'\<rparr>)
              \<and> Typ m' = rd w ! 0 \<and> Length m' = header_length (take 5 (rd w)))"
    using ws last by (auto simp: ReadMessage_def Skip_def Wire_Read_def Let_def)
  show ?thesis using A B by blast
qed

lemma example_ReadMessage: "ReadMessage example_wire = Inr (example_frame, example_wire1)"
  by (simp add: ReadMessage_def Wire_Read_def example_wire_def example_frame_def
      example_wire1_def header_length_def Let_def)

lemma example_Message_Read:
  "Message_Read example_frame example_wire1 = Inr (Some [1, 2, 3], example_frame2, example_wire2)"
  by (simp add: Message_Read_def Wire_Read_def example_wire_def example_frame_def
      example_wire1_def example_frame2_def example_wire2_def WireBufferSize_def Let_def)

theorem C2_ReadMessage_skips_unread_body_witness:
  "ReadMessage example_wire = Inr (example_frame, example_wire1)
   \<and> Wire_inv example_wire1 \<and> lastMsg example_wire1 = Some example_frame
   \<and> buf example_frame = None \<and> 4 \<le> sint (Length example_frame)
   \<and> nat (sint (Length example_frame) - 4) + 5 \<le> length (rd example_wire1)
   \<and> Skip example_frame example_wire1 = Inr (example_wire1\<lparr>rd := [88, 0, 0, 0, 4]\<rparr>)
   \<and> (\<exists>m'. ReadMessage example_wire1 = Inr (m', example_wire1\<lparr>rd := [], lastMsg := Some m'\<rparr>)
          \<and> Typ m' = 88 \<and> Length m' = 4)
   \<and> Message_Read example_frame example_wire1 = Inr (Some [1, 2, 3], example_frame2, example_wire2)
   \<and> Wire_inv example_wire2 \<and> lastMsg example_wire2 = Some example_frame2
   \<and> buf example_frame2 \<noteq> None \<and> 5 \<le> length (rd example_wire2)
   \<and> Skip example_frame2 example_wire2 = Inr example_wire2
   \<and> (\<exists>m'. ReadMessage example_wire2 = Inr (m', example_wire2\<lparr>rd := [], lastMsg := Some m'\<rparr>)
          \<and> Typ m' = 88 \<and> Length m' = 4)"
  using C2_ReadMessage_skips_unread_body [of example_wire1 example_frame]
    C2_ReadMessage_skips_unread_body [of example_wire2 example_frame2]
    example_ReadMessage example_Message_Read
  by (simp add: Wire_inv_def example_wire_def example_frame_def example_wire1_def
      example_frame2_def example_wire2_def header_length_def Let_def)

subsection \<open>Writing frames\<close>

lemma conn_WriteMessage_writable: "writable c \<Longrightarrow> conn_WriteMessage c m = Inr (emit c m)"
  by (simp add: writable_def conn_WriteMessage_def WriteMessage_def emit_def)

lemma writable_emit [simp]: "writable (emit c m) = writable c"
  by (simp add: writable_def emit_def)

lemma writable_update [simp]:
  "writable (c\<lparr>calls := x\<rparr>) = writable c" "writable (c\<lparr>inError := b\<rparr>) = writable c"
  "writable (c\<lparr>stmts := s\<rparr>) = writable c" "writable (c\<lparr>portal := p\<rparr>) = writable c"
  by (simp_all add: writable_def)

lemma Writer_emit [simp]: "Writer (wire (emit c m)) = Writer (wire c) @ [m]"
  by (simp add: emit_def)

lemma emit_fields [simp]:
  "calls (emit c m) = calls c" "stmts (emit c m) = stmts c" "portal (emit c m) = portal c"
  "inError (emit c m) = inError c"
  by (simp_all add: emit_def)



subsection \<open>Re-parsing a statement name\<close>




subsection \<open>The frames of a simple query\<close>









lemma Typ_frames [simp]:
  "Typ (DataRow_frame L vs) = DataRow" "Typ (CommandComplete_frame t) = CommandComplete"
  "Typ (ErrorResponse_frame e) = ErrorResponse"
  by (simp_all add: DataRow_frame_def CommandComplete_frame_def ErrorResponse_frame_def NewMessage_def)



lemma ex_rewrite [simp]:
  "rewriteShowTransactionReadOnly ''select a from t'' = ''select a from t''"
  "rewriteShowTransactionReadOnly ''select a from t where false'' = ''select a from t where false''"
  "rewriteShowTransactionReadOnly ''create table t (a int)'' = ''create table t (a int)''"
  by (simp_all add: rewriteShowTransactionReadOnly_def HasPrefix_def)




subsection \<open>Text rendering of decimals and timestamps\<close>

lemma pgTypeFromOid_25: "pgTypeFromOid 25 = \<lparr>Oid = 25, Name = ''text'', Typlen = 0\<rparr>"
  by (simp add: pgTypeFromOid_def oidTypeMap_def pgTypes_def)

lemma pgOid_of_TIMESTAMP:
  "duck2pgType ''TIMESTAMP'' = Inr ''timestamp''" "pgOidFromType ''timestamp'' = 1114"
  by (simp_all add: duck2pgType_def duck2pgTypeMap_def pgOidFromType_def typeOidMap_def pgTypes_def)

text \<open>
  C7. The claim: the text of a decimal is the digit string of its unscaled value with the
  point \<open>s\<close> places from the right, zero-padded on the left. \<open>duckDecimalToString\<close> counts the
  minus sign of \<open>value.Value.String()\<close> as a digit: the unscaled value \<open>-5\<close> with scale 2
  (the decimal \<open>-0.05\<close>) is rendered \<open>0.-5\<close>, and with scale 1 (the decimal \<open>-0.5\<close>) it is
  rendered \<open>-.5\<close>, while \<open>5\<close> with scale 2 gives \<open>0.05\<close>. The value projection of the
  PostgreSQL front-end (\<open>toPgValue\<close>) does not use the digit string at all: it prints the
  \<open>float64\<close> nearest to the decimal.
\<close>

theorem C7_decimal_rendering_of_negative_values:
  "duckDecimalToString \<lparr>Width = 4, Scale = 2, Value = - 5\<rparr> = ''0.-5''
   \<and> duckDecimalToString \<lparr>Width = 4, Scale = 1, Value = - 5\<rparr> = ''-.5''
   \<and> duckDecimalToString \<lparr>Width = 4, Scale = 2, Value = 5\<rparr> = ''0.05''
   \<and> toPgValue L (VDecimal d) =
       Inr \<lparr>typ' = pgTypeFromOid 1700,
            val = Some (bytes_of (FormatFloat64 L (Decimal_Float64 L d)))\<rparr>"
proof -
  have a: "duckDecimalToString \<lparr>Width = 4, Scale = 2, Value = - 5\<rparr> = ''0.-5''" by code_simp
  have b: "duckDecimalToString \<lparr>Width = 4, Scale = 1, Value = - 5\<rparr> = ''-.5''" by code_simp
  have c: "duckDecimalToString \<lparr>Width = 4, Scale = 2, Value = 5\<rparr> = ''0.05''" by code_simp
  show ?thesis using a b c by simp
qed

text \<open>
  C8. The claim: a timestamp value is tagged with the type OID 1114, which a RowDescription
  inferred from first-row values then advertises. \<open>toPgValue\<close> tags a \<open>time.Time\<close> with the
  type of OID 25 (\<open>text\<close>), and the RowDescription built from a first row with a timestamp
  carries the OID bytes \<open>0 0 0 25\<close>. The RowDescription built by schema inference for the same
  column (engine type \<open>TIMESTAMP\<close>) carries 1114 (bytes \<open>0 0 4 90\<close>). The text is
  \<open>v.Format("2006-01-02 15:04:05.999999")\<close>.
\<close>

theorem C8_timestamp_is_tagged_as_text:
  "toPgValue L (VTime t) =
      Inr \<lparr>typ' = pgTypeFromOid 25,
           val = Some (bytes_of (Time_Format L ''2006-01-02 15:04:05.999999'' t))\<rparr>
   \<and> pgTypeFromOid 25 = \<lparr>Oid = 25, Name = ''text'', Typlen = 0\<rparr>
   \<and> (25 :: 32 word) \<noteq> 1114
   \<and> SendRowDescription_loop L [name] [VTime t] 0 =
       Inr (cstr name @ [0, 0, 0, 0] @ [0, 0] @ [0, 0, 0, 25] @ [0, 0] @ [0, 0, 0, 0] @ [0, 0])
   \<and> SendRowDescriptionWithColumnNameAndTypes_loop [(name, ''TIMESTAMP'')] =
       Inr (cstr name @ [0, 0, 0, 0, 0, 0] @ [0, 0, 4, 90] @ [0, 0, 0, 0, 0, 0, 0, 0])"
  by (simp add: pgTypeFromOid_25 pgOid_of_TIMESTAMP cint32_def cint16_def)

subsection \<open>SCRAM-SHA-256: the failure message and the bounds of the client proof\<close>

lemma xor_loop_short:
  "i \<le> length clientProof \<Longrightarrow> length clientProof < length clientSignature \<Longrightarrow>
     xor_loop clientProof clientSignature clientKey i = Inl (Panic ''index out of range'')"
proof (induction "length clientProof - i" arbitrary: i clientKey)
  case 0
  then show ?case by (simp add: xor_loop.simps)
next
  case (Suc n)
  then have "i < length clientProof" "i < length clientSignature" by auto
  moreover have "xor_loop clientProof clientSignature
      (clientKey[i := (clientProof ! i) XOR (clientSignature ! i)]) (i + 1) = Inl (Panic ''index out of range'')"
    using Suc by (intro Suc.hyps(1)) auto
  ultimately show ?case by (subst xor_loop.simps) simp
qed

lemma xor_loop_long:
  "length clientSignature \<le> length clientProof \<Longrightarrow>
     \<exists>k. xor_loop clientProof clientSignature clientKey i = Inr k"
proof (induction "length clientSignature - i" arbitrary: i clientKey)
  case 0
  then show ?case by (simp add: xor_loop.simps)
next
  case (Suc n)
  then have "i < length clientProof" "i < length clientSignature" by auto
  moreover have "\<exists>k. xor_loop clientProof clientSignature
      (clientKey[i := (clientProof ! i) XOR (clientSignature ! i)]) (i + 1) = Inr k"
    using Suc by (intro Suc.hyps(1)) auto
  ultimately show ?case by (subst xor_loop.simps) simp
qed







lemma ReadMessage_Writer_update:
  "ReadMessage (w\<lparr>Writer := x\<rparr>) = map_sum id (\<lambda>(m, w'). (m, w'\<lparr>Writer := x\<rparr>)) (ReadMessage w)"
  by (auto simp: ReadMessage_def Skip_def CopyN_Discard_def Wire_Read_def Let_def
      split: option.splits sum.splits if_splits)

lemma Message_Read_Writer_update:
  "Message_Read m (w\<lparr>Writer := x\<rparr>) =
     map_sum id (\<lambda>(b, m', w'). (b, m', w'\<lparr>Writer := x\<rparr>)) (Message_Read m w)"
  by (auto simp: Message_Read_def Wire_Read_def Let_def split: option.splits sum.splits if_splits)

lemma ParseSASLResponseMessage_Writer_update:
  "ParseSASLResponseMessage S m (w\<lparr>Writer := x\<rparr>) =
     (case ParseSASLResponseMessage S m w of (r, w') \<Rightarrow> (r, w'\<lparr>Writer := x\<rparr>))"
  by (auto simp: ParseSASLResponseMessage_def Message_Read_Writer_update split: sum.splits)

lemma wire_emit: "wire (emit c m) = (wire c)\<lparr>Writer := Writer (wire c) @ [m]\<rparr>"
  by (simp add: emit_def)




lemma ex_groups: "password_FindStringSubmatch ''SCRAM-SHA-256$4096:c2FsdA==$c3RvcmVk:c2VydmVy'' =
   [''SCRAM-SHA-256$4096:c2FsdA==$c3RvcmVk:c2VydmVy'', ''4096'', ''c2FsdA=='', ''c3RvcmVk'', ''c2VydmVy'']"
  by (simp add: password_FindStringSubmatch_def HasPrefix_def isDigit_def Let_def)


lemma ex_read_short:
  "ReadMessage (wire ex_conn_short) =
     Inr (ex_msg 34, ex_wire\<lparr>rd := ex_body_short, lastMsg := Some (ex_msg 34)\<rparr>)"
  by (simp add: ReadMessage_def ex_conn_short_def ex_conn_reading_def ex_frame_bytes_def ex_conn_def
      ex_wire_def Wire_Read_def cint32_def header_length_def Let_def ex_msg_def ex_body_short_def
      bytes_of_def)

lemma ex_parse_short:
  "ParseSASLResponseMessage ex_sasl (ex_msg 34) (ex_wire\<lparr>rd := ex_body_short, lastMsg := Some (ex_msg 34)\<rparr>) =
     (Inr ex_body_short, ex_wire\<lparr>rd := [], lastMsg := Some ((ex_msg 34)\<lparr>buf := Some ex_body_short\<rparr>)\<rparr>)"
  by (simp add: ParseSASLResponseMessage_def Message_Read_def Wire_Read_def WireBufferSize_def Let_def
      ex_msg_def ex_wire_def ex_sasl_def ex_body_short_def bytes_of_def)

lemma ex_p_short: "map_index (parseSaslData ex_body_short) ''p'' = []"
  by code_simp




text \<open>
  C10. The claim: the verification step reads the decoded client proof only within its
  bounds. The loop reads \<open>clientProof[i]\<close> for every \<open>i\<close> below the length of the
  client signature (32 bytes for HMAC-SHA-256) without looking at the length of the proof:
  when the decoded \<open>p\<close> field has fewer than 32 bytes (it has none when the field is
  absent), the read is out of range and the function panics.
\<close>

theorem C10_short_client_proof_is_read_out_of_range:
  assumes w: "writable c"
    and pw: "GetPassword server user = Inr pw"
    and g: "length (password_FindStringSubmatch pw) = 5"
    and r: "ReadMessage (wire c) = Inr (msg, w2)"
    and p: "ParseSASLResponseMessage S msg w2 = (Inr Data, w3)"
    and h: "\<forall>k m. length (computeHMAC C k m) = 32"
    and short: "length (b64_DecodeString C (map_index (parseSaslData Data) ''p'')) < 32"
  shows "ScramSha256Auth_verify C S server c user n = Inl (Panic ''index out of range'')"
  using assms
  by (simp add: ScramSha256Auth_verify_def Let_def conn_WriteMessage_writable wire_emit
      ReadMessage_Writer_update ParseSASLResponseMessage_Writer_update xor_loop_short)

theorem C10_short_client_proof_is_read_out_of_range_witness:
  "writable ex_conn_short
   \<and> GetPassword ex_server ''alice'' = Inr ''SCRAM-SHA-256$4096:c2FsdA==$c3RvcmVk:c2VydmVy''
   \<and> length (password_FindStringSubmatch ''SCRAM-SHA-256$4096:c2FsdA==$c3RvcmVk:c2VydmVy'') = 5
   \<and> ReadMessage (wire ex_conn_short) =
        Inr (ex_msg 34, ex_wire\<lparr>rd := ex_body_short, lastMsg := Some (ex_msg 34)\<rparr>)
   \<and> ParseSASLResponseMessage ex_sasl (ex_msg 34)
          (ex_wire\<lparr>rd := ex_body_short, lastMsg := Some (ex_msg 34)\<rparr>) =
        (Inr ex_body_short, ex_wire\<lparr>rd := [], lastMsg := Some ((ex_msg 34)\<lparr>buf := Some ex_body_short\<rparr>)\<rparr>)
   \<and> (\<forall>k m. length (computeHMAC ex_crypto k m) = 32)
   \<and> length (b64_DecodeString ex_crypto (map_index (parseSaslData ex_body_short) ''p'')) < 32
   \<and> ScramSha256Auth_verify ex_crypto ex_sasl ex_server ex_conn_short ''alice'' ''abc'' =
        Inl (Panic ''index out of range'')"
proof -
  have w: "writable ex_conn_short"
    by (simp add: writable_def ex_conn_short_def ex_conn_reading_def ex_conn_def ex_wire_def)
  have pw: "GetPassword ex_server ''alice'' = Inr ''SCRAM-SHA-256$4096:c2FsdA==$c3RvcmVk:c2VydmVy''"
    by (simp add: ex_server_def)
  have g: "length (password_FindStringSubmatch ''SCRAM-SHA-256$4096:c2FsdA==$c3RvcmVk:c2VydmVy'') = 5"
    by (simp add: ex_groups)
  have h: "\<forall>k m. length (computeHMAC ex_crypto k m) = 32" by (simp add: ex_crypto_def)
  have s: "length (b64_DecodeString ex_crypto (map_index (parseSaslData ex_body_short) ''p'')) < 32"
    by (simp add: ex_p_short ex_crypto_def bytes_of_def)
  show ?thesis
    using C10_short_client_proof_is_read_out_of_range [OF w pw g ex_read_short ex_parse_short h s, of "''abc''"] w pw g ex_read_short ex_parse_short h s
    by simp
qed

subsection \<open>The LIMIT rewrite\<close>

lemma folds_to_LIMIT_length: "folds_to_LIMIT kw \<Longrightarrow> length kw = 5"
  by (simp add: folds_to_LIMIT_def)

lemma space_not_digit: "isSpace c \<Longrightarrow> \<not> isDigit c"
  by (auto simp: isSpace_def isDigit_def)

lemma comma_not: "\<not> isSpace CHR '',''" "\<not> isDigit CHR '',''"
  by (simp_all add: isSpace_def isDigit_def)

lemma takeWhile_all: "list_all P xs \<Longrightarrow> (ys = [] \<or> \<not> P (hd ys)) \<Longrightarrow> takeWhile P (xs @ ys) = xs"
  by (induction xs) (auto simp: takeWhile_eq_Nil_iff)

lemma dropWhile_all: "list_all P xs \<Longrightarrow> dropWhile P (xs @ ys) = dropWhile P ys"
  by (induction xs) auto

lemma dropWhile_stop: "ys = [] \<or> \<not> P (hd ys) \<Longrightarrow> dropWhile P ys = ys"
  by (cases ys) auto

lemma matchLimit_complete:
  assumes sh: "limit_shape kw ws1 a ws2 ws3 b" and post: "no_digit_ahead post"
  shows "matchLimit (limit_text kw ws1 a ws2 ws3 b @ post) = Some (a, b, post)"
proof -
  from sh have kw: "folds_to_LIMIT kw" "length kw = 5"
    and ws1: "ws1 \<noteq> []" "list_all isSpace ws1" and a: "a \<noteq> []" "list_all isDigit a"
    and ws2: "list_all isSpace ws2" and ws3: "list_all isSpace ws3"
    and b: "b \<noteq> []" "list_all isDigit b"
    by (auto simp: limit_shape_def folds_to_LIMIT_length)
  have p: "post = [] \<or> \<not> isDigit (hd post)"
    using post by (cases post) (auto simp: no_digit_ahead_def)
  have ha: "\<not> isSpace (hd a)" using a by (cases a) (auto dest: space_not_digit)
  have hb: "\<not> isSpace (hd b)" using b by (cases b) (auto dest: space_not_digit)
  define t1 where "t1 = ws1 @ a @ ws2 @ '','' @ ws3 @ b @ post"
  define t2 where "t2 = a @ ws2 @ '','' @ ws3 @ b @ post"
  define t3 where "t3 = ws2 @ '','' @ ws3 @ b @ post"
  define t5 where "t5 = ws3 @ b @ post"
  define t6 where "t6 = b @ post"
  have e0: "take 5 (limit_text kw ws1 a ws2 ws3 b @ post) = kw"
    "drop 5 (limit_text kw ws1 a ws2 ws3 b @ post) = t1"
    using kw by (simp_all add: limit_text_def t1_def)
  have e1: "takeWhile isSpace t1 = ws1" "dropWhile isSpace t1 = t2"
  proof -
    have h: "t2 = [] \<or> \<not> isSpace (hd t2)" using a ha by (simp add: t2_def)
    have t: "t1 = ws1 @ t2" by (simp add: t1_def t2_def)
    show "takeWhile isSpace t1 = ws1" unfolding t using ws1 h by (intro takeWhile_all) auto
    show "dropWhile isSpace t1 = t2" unfolding t using ws1 h
      by (simp add: dropWhile_all dropWhile_stop)
  qed
  have h3: "t3 = [] \<or> \<not> isDigit (hd t3)"
    using ws2 by (cases ws2) (auto simp: t3_def comma_not dest: space_not_digit)
  have e2: "takeWhile isDigit t2 = a" "dropWhile isDigit t2 = t3"
  proof -
    have t: "t2 = a @ t3" by (simp add: t2_def t3_def)
    show "takeWhile isDigit t2 = a" unfolding t using a h3 by (intro takeWhile_all) auto
    show "dropWhile isDigit t2 = t3" unfolding t using a h3
      by (simp add: dropWhile_all dropWhile_stop)
  qed
  have e3: "dropWhile isSpace t3 = CHR '','' # t5"
  proof -
    have "t3 = ws2 @ (CHR '','' # t5)" by (simp add: t3_def t5_def)
    then show ?thesis using ws2 by (simp add: dropWhile_all comma_not)
  qed
  have e5: "dropWhile isSpace t5 = t6"
  proof -
    have "t5 = ws3 @ t6" by (simp add: t5_def t6_def)
    moreover have "t6 = [] \<or> \<not> isSpace (hd t6)" using b hb by (simp add: t6_def)
    ultimately show ?thesis using ws3 by (simp add: dropWhile_all dropWhile_stop)
  qed
  have e6: "takeWhile isDigit t6 = b" "dropWhile isDigit t6 = post"
    unfolding t6_def using b p by (simp_all add: takeWhile_all dropWhile_all dropWhile_stop)
  show ?thesis
    apply (subst matchLimit_def)
    apply (simp only: e0 Let_def e1 e2 e3 list.case e5 e6)
    apply (simp add: kw ws1 a b)
    done
qed

lemma matchLimit_sound:
  assumes "matchLimit s = Some (a, b, rest)"
  shows "\<exists>kw ws1 ws2 ws3. s = limit_text kw ws1 a ws2 ws3 b @ rest
           \<and> limit_shape kw ws1 a ws2 ws3 b \<and> no_digit_ahead rest"
proof -
  define s1 where "s1 = drop 5 s"
  define s2 where "s2 = dropWhile isSpace s1"
  define s3 where "s3 = dropWhile isDigit s2"
  from assms obtain s5 where kw: "folds_to_LIMIT (take 5 s)"
    and ws1: "takeWhile isSpace s1 \<noteq> []"
    and a: "a = takeWhile isDigit s2" "a \<noteq> []"
    and s5: "dropWhile isSpace s3 = CHR '','' # s5"
    and b: "b = takeWhile isDigit (dropWhile isSpace s5)" "b \<noteq> []"
    and r: "rest = dropWhile isDigit (dropWhile isSpace s5)"
    by (auto simp: matchLimit_def Let_def s1_def s2_def s3_def split: if_splits list.splits)
  have all: "list_all P (takeWhile P xs)" for P and xs :: string
    by (induction xs) auto
  have "s = take 5 s @ s1" by (simp add: s1_def)
  also have "s1 = takeWhile isSpace s1 @ s2" by (simp add: s2_def)
  also have "s2 = a @ s3" by (simp add: a s3_def)
  also have "s3 = takeWhile isSpace s3 @ CHR '','' # s5"
    using takeWhile_dropWhile_id [of isSpace s3] s5 by simp
  also have "s5 = takeWhile isSpace s5 @ b @ rest"
    using takeWhile_dropWhile_id [of isSpace s5]
      takeWhile_dropWhile_id [of isDigit "dropWhile isSpace s5"] b r by simp
  finally have eq: "s = limit_text (take 5 s) (takeWhile isSpace s1) a (takeWhile isSpace s3)
      (takeWhile isSpace s5) b @ rest"
    by (simp add: limit_text_def)
  have sh: "limit_shape (take 5 s) (takeWhile isSpace s1) a (takeWhile isSpace s3)
      (takeWhile isSpace s5) b"
    using kw ws1 a b by (simp add: limit_shape_def all)
  have "no_digit_ahead rest"
    unfolding r no_digit_ahead_def
    by (auto split: list.splits simp: dropWhile_eq_Cons_conv)
  then show ?thesis using eq sh by blast
qed

lemma limit_shape_starts: "limit_shape kw ws1 a ws2 ws3 b \<Longrightarrow> starts_with_L (limit_text kw ws1 a ws2 ws3 b @ post)"
proof -
  assume "limit_shape kw ws1 a ws2 ws3 b"
  then have k: "length kw = 5" "kw ! 0 = CHR ''L'' \<or> kw ! 0 = CHR ''l''"
    by (simp_all add: limit_shape_def folds_to_LIMIT_def)
  then obtain c cs where "kw = c # cs" by (cases kw) auto
  then show ?thesis using k(2) by (simp add: limit_text_def starts_with_L_def)
qed

lemma takeWhile_before: "s \<noteq> [] \<Longrightarrow> \<not> P (hd s) \<Longrightarrow> takeWhile P (x @ s) = takeWhile P x"
  by (induction x) (auto simp: takeWhile_eq_Nil_iff)

lemma dropWhile_before: "s \<noteq> [] \<Longrightarrow> \<not> P (hd s) \<Longrightarrow> dropWhile P (x @ s) = dropWhile P x @ s"
  by (induction x) (auto simp: dropWhile_stop)

lemma matchLimit_before:
  assumes L: "starts_with_L s" and x: "x \<noteq> []"
  shows "matchLimit (x @ s) = map_option (\<lambda>(a, b, r). (a, b, r @ s)) (matchLimit x)"
proof -
  from L obtain c0 s' where s: "s = c0 # s'" and c0: "c0 = CHR ''L'' \<or> c0 = CHR ''l''"
    by (auto simp: starts_with_L_def split: list.splits)
  have ne: "s \<noteq> []" and nsp: "\<not> isSpace (hd s)" and ndg: "\<not> isDigit (hd s)" and ncm: "hd s \<noteq> CHR '',''"
    using s c0 by (auto simp: isSpace_def isDigit_def)
  show ?thesis
  proof (cases "5 \<le> length x")
    case True
    have t: "take 5 (x @ s) = take 5 x" "drop 5 (x @ s) = drop 5 x @ s" using True by simp_all
    have tw: "takeWhile isSpace (y @ s) = takeWhile isSpace y"
      "dropWhile isSpace (y @ s) = dropWhile isSpace y @ s"
      "takeWhile isDigit (y @ s) = takeWhile isDigit y"
      "dropWhile isDigit (y @ s) = dropWhile isDigit y @ s" for y
      using ne nsp ndg by (simp_all add: takeWhile_before dropWhile_before)
    define d where "d = dropWhile isSpace (dropWhile isDigit (dropWhile isSpace (drop 5 x)))"
    have l: "matchLimit (x @ s) =
        (if \<not> folds_to_LIMIT (take 5 x) then None
         else if takeWhile isSpace (drop 5 x) = [] then None
         else if takeWhile isDigit (dropWhile isSpace (drop 5 x)) = [] then None
         else (case d @ s of
                 [] \<Rightarrow> None
               | c # s5 \<Rightarrow>
                   if c \<noteq> CHR '','' then None
                   else if takeWhile isDigit (dropWhile isSpace s5) = [] then None
                   else Some (takeWhile isDigit (dropWhile isSpace (drop 5 x)),
                              takeWhile isDigit (dropWhile isSpace s5),
                              dropWhile isDigit (dropWhile isSpace s5))))"
      by (simp only: matchLimit_def t Let_def tw d_def)
    have r: "matchLimit x =
        (if \<not> folds_to_LIMIT (take 5 x) then None
         else if takeWhile isSpace (drop 5 x) = [] then None
         else if takeWhile isDigit (dropWhile isSpace (drop 5 x)) = [] then None
         else (case d of
                 [] \<Rightarrow> None
               | c # s5 \<Rightarrow>
                   if c \<noteq> CHR '','' then None
                   else if takeWhile isDigit (dropWhile isSpace s5) = [] then None
                   else Some (takeWhile isDigit (dropWhile isSpace (drop 5 x)),
                              takeWhile isDigit (dropWhile isSpace s5),
                              dropWhile isDigit (dropWhile isSpace s5))))"
      by (simp only: matchLimit_def Let_def d_def)
    show ?thesis
    proof (cases d)
      case Nil
      have "c0 \<noteq> CHR '',''" using c0 by auto
      then show ?thesis unfolding l r using Nil by (simp add: s)
    next
      case (Cons y ys)
      then show ?thesis unfolding l r by (simp add: tw)
    qed
  next
    case False
    then have lx: "length x < 5" by simp
    have a: "\<not> folds_to_LIMIT (take 5 x)"
      using lx by (simp add: folds_to_LIMIT_def)
    have "(take 5 (x @ s)) ! length x = c0"
      using lx by (simp add: s nth_append)
    then have nth: "take 5 (x @ s) ! length x = c0" .
    have b: "\<not> folds_to_LIMIT (take 5 (x @ s))"
    proof
      assume "folds_to_LIMIT (take 5 (x @ s))"
      then have k: "take 5 (x @ s) ! 1 = CHR ''I'' \<or> take 5 (x @ s) ! 1 = CHR ''i''"
          "take 5 (x @ s) ! 2 = CHR ''M'' \<or> take 5 (x @ s) ! 2 = CHR ''m''"
          "take 5 (x @ s) ! 3 = CHR ''I'' \<or> take 5 (x @ s) ! 3 = CHR ''i''"
          "take 5 (x @ s) ! 4 = CHR ''T'' \<or> take 5 (x @ s) ! 4 = CHR ''t''"
        by (simp_all only: folds_to_LIMIT_def)
      have "0 < length x" using x by simp
      then have "length x = 1 \<or> length x = 2 \<or> length x = 3 \<or> length x = 4"
        using lx by arith
      then have "c0 = take 5 (x @ s) ! 1 \<or> c0 = take 5 (x @ s) ! 2 \<or> c0 = take 5 (x @ s) ! 3
          \<or> c0 = take 5 (x @ s) ! 4"
        using nth by metis
      then show False using c0 k by auto
    qed
    show ?thesis using a b by (simp add: matchLimit_def del: take_append)
  qed
qed

lemma limitRewrite_before:
  "starts_with_L s \<Longrightarrow> limitRewrite (x @ s) = limitRewrite x @ limitRewrite s"
proof (induction x rule: limitRewrite.induct)
  case 1
  then show ?case by simp
next
  case (2 c cs)
  have m: "matchLimit ((c # cs) @ s) = map_option (\<lambda>(a, b, r). (a, b, r @ s)) (matchLimit (c # cs))"
    using "2.prems" by (intro matchLimit_before) auto
  show ?case
  proof (cases "matchLimit (c # cs)")
    case None
    then show ?thesis using m "2.IH" "2.prems" by simp
  next
    case (Some t)
    then obtain a b r where t: "t = (a, b, r)" by (cases t) auto
    then show ?thesis using m Some "2.IH" "2.prems" by simp
  qed
qed

lemma limitRewrite_no_match:
  "(\<forall>i<length q. matchLimit (drop i q) = None) \<Longrightarrow> limitRewrite q = q"
proof (induction q)
  case Nil
  then show ?case by simp
next
  case (Cons c cs)
  have "matchLimit (c # cs) = None" using Cons.prems [rule_format, of 0] by simp
  moreover have "\<forall>i<length cs. matchLimit (drop i cs) = None"
    using Cons.prems [rule_format, of "Suc i" for i] by simp
  ultimately show ?case using Cons.IH by simp
qed

lemma digits_shape: "digits n \<noteq> [] \<and> list_all isDigit (digits n)"
proof (induction n rule: digits.induct)
  case (1 n)
  have d: "isDigit (char_of (48 + k))" if "k < 10" for k :: nat
    using that by (simp add: isDigit_def)
  show ?case
  proof (cases "n < 10")
    case True
    then show ?thesis by (subst (1 2) digits.simps) (simp add: d)
  next
    case False
    then show ?thesis using 1 by (subst (1 2) digits.simps) (simp add: d)
  qed
qed

text \<open>
  C9. Every occurrence of the pattern in a query, with the digit strings \<open>a\<close> and \<open>b\<close>
  (for all non-negative integers \<open>m\<close> and \<open>n\<close>, \<open>LIMIT m, n\<close> is one), is replaced by
  \<open>LIMIT b OFFSET a\<close>, whatever comes before and after it, and the rest of the query is
  rewritten in the same way; a query in which the pattern does not occur (equivalently, in
  which the regular expression matches at no position) is returned unchanged.
\<close>

theorem C9_LIMIT_rewrite:
  "(limit_shape kw ws1 a ws2 ws3 b \<longrightarrow> no_digit_ahead post \<longrightarrow>
      limitRewrite (pre @ limit_text kw ws1 a ws2 ws3 b @ post) =
        limitRewrite pre @ ''LIMIT '' @ b @ '' OFFSET '' @ a @ limitRewrite post)
   \<and> limit_shape ''LIMIT'' '' '' (digits m) [] '' '' (digits n)
   \<and> limit_text ''LIMIT'' '' '' (digits m) [] '' '' (digits n) = ''LIMIT '' @ digits m @ '', '' @ digits n
   \<and> ((\<forall>pre' kw' ws1' a' ws2' ws3' b' post'.
          q = pre' @ limit_text kw' ws1' a' ws2' ws3' b' @ post' \<longrightarrow> \<not> limit_shape kw' ws1' a' ws2' ws3' b')
        \<longrightarrow> limitRewrite q = q)
   \<and> (list_all (\<lambda>i. matchLimit (drop i q') = None) [0..<length q'] \<longrightarrow> limitRewrite q' = q')"
proof -
  have E: "list_all (\<lambda>i. matchLimit (drop i q') = None) [0..<length q'] \<longrightarrow> limitRewrite q' = q'"
    using limitRewrite_no_match [of q'] by (simp add: list_all_iff)
  have A: "limitRewrite (pre @ limit_text kw ws1 a ws2 ws3 b @ post) =
        limitRewrite pre @ ''LIMIT '' @ b @ '' OFFSET '' @ a @ limitRewrite post"
    if sh: "limit_shape kw ws1 a ws2 ws3 b" and p: "no_digit_ahead post"
  proof -
    have "limitRewrite (pre @ limit_text kw ws1 a ws2 ws3 b @ post) =
        limitRewrite pre @ limitRewrite (limit_text kw ws1 a ws2 ws3 b @ post)"
      using limit_shape_starts [OF sh] by (rule limitRewrite_before)
    moreover obtain c cs where cs: "limit_text kw ws1 a ws2 ws3 b @ post = c # cs"
      using limit_shape_starts [OF sh, of post] by (auto simp: starts_with_L_def split: list.splits)
    moreover have "limitRewrite (c # cs) = ''LIMIT '' @ b @ '' OFFSET '' @ a @ limitRewrite post"
      using matchLimit_complete [OF sh p] unfolding cs by simp
    ultimately show ?thesis by simp
  qed
  have B: "limit_shape ''LIMIT'' '' '' (digits m) [] '' '' (digits n)"
    using digits_shape [of m] digits_shape [of n]
    by (simp add: limit_shape_def folds_to_LIMIT_def isSpace_def)
  have C: "limit_text ''LIMIT'' '' '' (digits m) [] '' '' (digits n) = ''LIMIT '' @ digits m @ '', '' @ digits n"
    by (simp add: limit_text_def)
  have D: "limitRewrite q = q"
    if no: "\<forall>pre' kw' ws1' a' ws2' ws3' b' post'.
          q = pre' @ limit_text kw' ws1' a' ws2' ws3' b' @ post' \<longrightarrow> \<not> limit_shape kw' ws1' a' ws2' ws3' b'"
  proof (rule limitRewrite_no_match, intro allI impI)
    fix i assume "i < length q"
    show "matchLimit (drop i q) = None"
    proof (rule ccontr)
      assume "matchLimit (drop i q) \<noteq> None"
      then obtain a' b' rest where "matchLimit (drop i q) = Some (a', b', rest)" by auto
      from matchLimit_sound [OF this] obtain kw' ws1' ws2' ws3' where
        "drop i q = limit_text kw' ws1' a' ws2' ws3' b' @ rest" "limit_shape kw' ws1' a' ws2' ws3' b'"
        by blast
      moreover have "q = take i q @ drop i q" by simp
      ultimately show False using no by metis
    qed
  qed
  show ?thesis using A B C D E by blast
qed

lemma comma_in_limit_text: "CHR '','' \<in> set (pre @ limit_text kw ws1 a ws2 ws3 b @ post)"
  by (simp add: limit_text_def)

theorem C9_LIMIT_rewrite_witness:
  "limit_shape ''limit'' ''  '' ''5'' '' '' [] ''10'' \<and> no_digit_ahead '' FORMAT CSV''
   \<and> limitRewrite (''SELECT a FROM t '' @ limit_text ''limit'' ''  '' ''5'' '' '' [] ''10'' @ '' FORMAT CSV'') =
       limitRewrite ''SELECT a FROM t '' @ ''LIMIT '' @ ''10'' @ '' OFFSET '' @ ''5'' @ limitRewrite '' FORMAT CSV''
   \<and> limitRewrite ''SELECT a FROM t limit  5 ,10 FORMAT CSV'' = ''SELECT a FROM t LIMIT 10 OFFSET 5 FORMAT CSV''
   \<and> limit_shape ''LIMIT'' '' '' (digits 5) [] '' '' (digits 10)
   \<and> limitRewrite ''SELECT a FROM t LIMIT 5, 10'' = ''SELECT a FROM t LIMIT 10 OFFSET 5''
   \<and> list_all (\<lambda>i. matchLimit (drop i ''SELECT a FROM t LIMIT 5'') = None) [0..<length ''SELECT a FROM t LIMIT 5'']
   \<and> limitRewrite ''SELECT a FROM t LIMIT 5'' = ''SELECT a FROM t LIMIT 5''
   \<and> CHR '','' \<notin> set ''SELECT 1'' \<and> limitRewrite ''SELECT 1'' = ''SELECT 1''"
proof -
  have d: "\<forall>pre' kw' ws1' a' ws2' ws3' b' post'.
          ''SELECT 1'' = pre' @ limit_text kw' ws1' a' ws2' ws3' b' @ post' \<longrightarrow> \<not> limit_shape kw' ws1' a' ws2' ws3' b'"
  proof (intro allI impI)
    fix pre' kw' ws1' a' ws2' ws3' b' post'
    assume "''SELECT 1'' = pre' @ limit_text kw' ws1' a' ws2' ws3' b' @ post'"
    hence "CHR '','' \<in> set ''SELECT 1''"
      using comma_in_limit_text [of pre' kw' ws1' a' ws2' ws3' b' post'] by simp
    thus "\<not> limit_shape kw' ws1' a' ws2' ws3' b'" by simp
  qed
  have sh: "limit_shape ''limit'' ''  '' ''5'' '' '' [] ''10''" by code_simp
  have nd: "no_digit_ahead '' FORMAT CSV''" by code_simp
  have e1: "limitRewrite ''SELECT a FROM t limit  5 ,10 FORMAT CSV'' = ''SELECT a FROM t LIMIT 10 OFFSET 5 FORMAT CSV''"
    by code_simp
  have e2: "limitRewrite ''SELECT a FROM t LIMIT 5, 10'' = ''SELECT a FROM t LIMIT 10 OFFSET 5''"
    by code_simp
  have no: "list_all (\<lambda>i. matchLimit (drop i ''SELECT a FROM t LIMIT 5'') = None) [0..<length ''SELECT a FROM t LIMIT 5'']"
    by code_simp
  note T = C9_LIMIT_rewrite [of "''limit''" "''  ''" "''5''" "'' ''" "[]" "''10''" "'' FORMAT CSV''" "''SELECT a FROM t ''"
      5 10 "''SELECT 1''" "''SELECT a FROM t LIMIT 5''"]
  show ?thesis using T sh nd e1 e2 no d by simp
qed

end
